theory Spec2Isabelle
  imports Main
begin

section \<open>Python values and exceptions\<close>

text \<open>
  The programs exchange JSON documents with the external services and keep Python
  dictionaries decoded from them. One datatype stands for these values: \<open>JObj\<close> is a
  dictionary (an association list with string keys, looked up with \<open>map_of\<close>),
  \<open>JArr\<close> a list, \<open>JNum\<close> an integer, \<open>JNull\<close> is \<open>None\<close>.
  Non-integer numbers do not occur in the parts of the program modelled here.
\<close>

datatype json =
    JNull
  | JBool bool
  | JNum int
  | JStr string
  | JArr "json list"
  | JObj "(string \<times> json) list"

text \<open>
  A raised exception is a value: its class and its message (\<open>str(e)\<close>). The classes
  are the ones the modelled code can raise or receive from a collaborator.
\<close>

datatype exn_class =
    Exception
  | TimeoutError
  | KeyError
  | TypeError
  | IndexError
  | AttributeError
  | ZeroDivisionError
  | HTTPError
  | JSONDecodeError

datatype exn = Raise exn_class string

fun str_exn :: "exn \<Rightarrow> string" where
  "str_exn (Raise c m) = m"

definition quoted :: "string \<Rightarrow> string" where
  "quoted k = [CHR 0x27] @ k @ [CHR 0x27]"

text \<open>\<open>v[k]\<close> for a string key \<open>k\<close>: only a dictionary that has the key answers.\<close>

fun subscript :: "json \<Rightarrow> string \<Rightarrow> exn + json" where
  "subscript (JObj kvs) k =
     (case map_of kvs k of
        None \<Rightarrow> Inl (Raise KeyError (quoted k))
      | Some v \<Rightarrow> Inr v)"
| "subscript (JStr s) k = Inl (Raise TypeError ''string indices must be integers'')"
| "subscript (JArr xs) k = Inl (Raise TypeError ''list indices must be integers or slices, not str'')"
| "subscript v k = Inl (Raise TypeError ''object is not subscriptable'')"

text \<open>\<open>v[0]\<close>: the first element of a list, the first character of a string.\<close>

fun index0 :: "json \<Rightarrow> exn + json" where
  "index0 (JArr []) = Inl (Raise IndexError ''list index out of range'')"
| "index0 (JArr (x # xs)) = Inr x"
| "index0 (JStr []) = Inl (Raise IndexError ''string index out of range'')"
| "index0 (JStr (c # cs)) = Inr (JStr [c])"
| "index0 (JObj kvs) = Inl (Raise KeyError ''0'')"
| "index0 v = Inl (Raise TypeError ''object is not subscriptable'')"

text \<open>\<open>v.get(k, d)\<close>: defined on dictionaries only.\<close>

fun get :: "json \<Rightarrow> string \<Rightarrow> json \<Rightarrow> exn + json" where
  "get (JObj kvs) k d = Inr (case map_of kvs k of None \<Rightarrow> d | Some v \<Rightarrow> v)"
| "get v k d = Inl (Raise AttributeError ''object has no attribute get'')"

section \<open>The idea bank (ideas.py)\<close>

definition IDEAS :: "json list" where
  "IDEAS = [
   JObj [(''slug'', JStr ''baby-goat-happy-hops''),
     (''language'', JStr ''en''),
     (''coreHook'', JStr ''A newborn baby goat does tiny excited hops around a camera placed on the grass.''),
     (''settingHints'', JStr ''Small farm field at golden hour.''),
     (''coreCharacters'', JStr ''One tiny newborn goat kid.''),
     (''coreAction'', JStr ''Goat hops in energetic, clumsy bursts around the camera, occasionally sliding or stumbling cutely.''),
     (''safetyConstraints'', JStr ''Gentle terrain with no obstacles.''),
     (''styleTags'', JArr [JStr ''goat'', JStr ''baby-animal'', JStr ''nature'', JStr ''playful'', JStr ''viral''])],
   JObj [(''slug'', JStr ''baby-husky-mimic-sounds''),
     (''language'', JStr ''en''),
     (''coreHook'', JStr ''A baby babbles, and a husky puppy tries to mimic the baby's sounds.''),
     (''settingHints'', JStr ''Indoor nursery with warm window light.''),
     (''coreCharacters'', JStr ''One baby sitting, one husky puppy facing them.''),
     (''coreAction'', JStr ''Baby babbles. Husky pup responds with tiny attempts at howling, tilting its head in confusion.''),
     (''safetyConstraints'', JStr ''Puppy must be gentle and stable.''),
     (''styleTags'', JArr [JStr ''baby'', JStr ''husky'', JStr ''talking'', JStr ''cute'', JStr ''sound-mimic''])],
   JObj [(''slug'', JStr ''baby-elephant-curious-trunk''),
     (''language'', JStr ''en''),
     (''coreHook'', JStr ''A baby elephant gently explores a camera lens with its tiny trunk.''),
     (''settingHints'', JStr ''Sanctuary environment with soft dust and sunlight.''),
     (''coreCharacters'', JStr ''One young baby elephant.''),
     (''coreAction'', JStr ''Elephant taps and explores the camera with its trunk, then sneezes a tiny dust puff.''),
     (''safetyConstraints'', JStr ''Elephant must act gentle. No dangerous trunk swings.''),
     (''styleTags'', JArr [JStr ''elephant'', JStr ''baby-animal'', JStr ''nature'', JStr ''viral'', JStr ''cute''])],
   JObj [(''slug'', JStr ''baby-kitten-soft-paws''),
     (''language'', JStr ''en''),
     (''coreHook'', JStr ''A tiny kitten kneads on the baby's blanket, mesmerising the baby.''),
     (''settingHints'', JStr ''Indoor blanket scene with close smartphone angle.''),
     (''coreCharacters'', JStr ''One baby lying on back, one kitten near feet.''),
     (''coreAction'', JStr ''Kitten kneads the blanket gently. Baby reaches out curiously.''),
     (''safetyConstraints'', JStr ''Kitten must be gentle. No claws extended.''),
     (''styleTags'', JArr [JStr ''baby'', JStr ''kitten'', JStr ''kneading'', JStr ''adorable'', JStr ''viral''])],
   JObj [(''slug'', JStr ''baby-sloth-slow-hug''),
     (''language'', JStr ''en''),
     (''coreHook'', JStr ''A baby sloth slowly crawls toward the camera and hugs it.''),
     (''settingHints'', JStr ''Rescue center, natural wood branches, soft lighting.''),
     (''coreCharacters'', JStr ''One baby sloth.''),
     (''coreAction'', JStr ''Sloth crawls slowly, then wraps its arms around the camera with an innocent expression.''),
     (''safetyConstraints'', JStr ''Sloth kept low and safe.''),
     (''styleTags'', JArr [JStr ''sloth'', JStr ''baby-animal'', JStr ''hug'', JStr ''adorable''])],
   JObj [(''slug'', JStr ''fawn-curious-head-tilt''),
     (''language'', JStr ''en''),
     (''coreHook'', JStr ''A newborn fawn hears a soft sound and tilts its head repeatedly.''),
     (''settingHints'', JStr ''Forest edge or sanctuary meadow.''),
     (''coreCharacters'', JStr ''One newborn fawn.''),
     (''coreAction'', JStr ''Fawn tilts head slowly left and right, then steps forward shyly.''),
     (''safetyConstraints'', JStr ''Soft terrain, calm environment.''),
     (''styleTags'', JArr [JStr ''fawn'', JStr ''baby-animal'', JStr ''cute'', JStr ''nature''])],
   JObj [(''slug'', JStr ''baby-penguin-tiny-waddle''),
     (''language'', JStr ''en''),
     (''coreHook'', JStr ''A baby penguin waddles toward the camera and slips gently on its belly.''),
     (''settingHints'', JStr ''Indoor cool habitat with soft ice or snow texture.''),
     (''coreCharacters'', JStr ''One fluffy penguin chick.''),
     (''coreAction'', JStr ''Penguin waddles, slips, slides forward, then looks proud.''),
     (''safetyConstraints'', JStr ''No sharp ice. Safe ground.''),
     (''styleTags'', JArr [JStr ''penguin'', JStr ''cute'', JStr ''baby-animal'', JStr ''slip'', JStr ''viral''])],
   JObj [(''slug'', JStr ''hedgehog-tiny-sniff''),
     (''language'', JStr ''en''),
     (''coreHook'', JStr ''A baby hedgehog sniffs the camera lens repeatedly, twitching its tiny nose.''),
     (''settingHints'', JStr ''Soft wooden table or blanket.''),
     (''coreCharacters'', JStr ''One very small hedgehog.''),
     (''coreAction'', JStr ''Hedgehog sniffs and wiggles toward the lens, then curls into a tiny ball.''),
     (''safetyConstraints'', JStr ''Safe padded surface.''),
     (''styleTags'', JArr [JStr ''hedgehog'', JStr ''cute'', JStr ''micro'', JStr ''sniff'', JStr ''viral''])],
   JObj [(''slug'', JStr ''baby-lab-puppy-tug''),
     (''language'', JStr ''en''),
     (''coreHook'', JStr ''A baby and a Labrador puppy gently tug on opposite sides of a soft cloth.''),
     (''settingHints'', JStr ''Living room play mat with natural window light.''),
     (''coreCharacters'', JStr ''One baby, one lab puppy.''),
     (''coreAction'', JStr ''Baby pulls cloth. Puppy pulls the other side in tiny, playful motions.''),
     (''safetyConstraints'', JStr ''No rough tugging. Baby must remain stable.''),
     (''styleTags'', JArr [JStr ''baby'', JStr ''puppy'', JStr ''lab'', JStr ''playful''])],
   JObj [(''slug'', JStr ''baby-chimp-curious-hands''),
     (''language'', JStr ''en''),
     (''coreHook'', JStr ''A baby chimp explores the camera gently with its hands.''),
     (''settingHints'', JStr ''Sanctuary habitat with soft leaves.''),
     (''coreCharacters'', JStr ''One baby chimp.''),
     (''coreAction'', JStr ''Chimp touches lens with curiosity, then mimics the camera operator.''),
     (''safetyConstraints'', JStr ''Chimp must remain gentle, slow, safe.''),
     (''styleTags'', JArr [JStr ''chimp'', JStr ''baby-animal'', JStr ''cute''])]]"

text \<open>
  \<open>get_next_idea(current_index)\<close>: \<open>index = current_index % len(IDEAS)\<close>, then
  \<open>IDEAS[index], (index + 1) % len(IDEAS)\<close>. The modulus raises on an empty bank.
  The bank is a module-level list that \<open>add_custom_idea\<close> may extend, so it is an
  argument here.
\<close>

definition get_next_idea :: "json list \<Rightarrow> int \<Rightarrow> exn + (json \<times> int)" where
  "get_next_idea bank current_index =
     (if length bank = 0 then Inl (Raise ZeroDivisionError ''integer modulo by zero'')
      else
        let index = current_index mod int (length bank)
        in Inr (bank ! nat index, (index + 1) mod int (length bank)))"

text \<open>\<open>n\<close> successive calls, each fed the index the previous one returned.\<close>

fun next_ideas :: "json list \<Rightarrow> nat \<Rightarrow> int \<Rightarrow> exn + (json list \<times> int)" where
  "next_ideas bank 0 i = Inr ([], i)"
| "next_ideas bank (Suc n) i =
     (case get_next_idea bank i of
        Inl e \<Rightarrow> Inl e
      | Inr (idea, i') \<Rightarrow>
          (case next_ideas bank n i' of
             Inl e \<Rightarrow> Inl e
           | Inr (rest, j) \<Rightarrow> Inr (idea # rest, j)))"


section \<open>External collaborators and the persistent store\<close>

text \<open>
  The HTTP wrappers of api_clients.py and ai_client.py are opaque: one run sees their
  outcomes, which this record supplies. \<open>generate_script\<close> is the outcome of
  \<open>OpenAIClient.generate_script\<close> (a decoded script or the error it raised),
  \<open>chat\<close> the text \<open>EnhancedAIClient.chat\<close> returns (it catches its own errors),
  \<open>get_task_status k\<close> the duration and the outcome of the \<open>k\<close>-th status request,
  \<open>create_post i\<close> the outcome of the post attempted at position \<open>i\<close> of the run's
  platform sequence. \<open>loads\<close> is \<open>json.loads\<close>, \<open>str_of\<close> the text Python
  formats a non-string value to, \<open>format_exc\<close> is \<open>traceback.format_exc\<close>.
\<close>

record env =
  generate_script :: "exn + json"
  chat :: string
  create_video :: "exn + json"
  get_task_status :: "nat \<Rightarrow> nat \<times> (exn + json)"
  upload_media :: "exn + json"
  create_post :: "nat \<Rightarrow> exn + json"
  loads :: "string \<Rightarrow> exn + json"
  str_of :: "json \<Rightarrow> string"
  format_exc :: "exn \<Rightarrow> string"

text \<open>The keyword arguments of \<open>Database.update_video\<close> that the engine passes.\<close>

datatype video_field =
    Set_sora_task_id json
  | Set_video_url json
  | Set_status string
  | Set_posted_youtube bool
  | Set_posted_instagram bool
  | Set_posted_tiktok bool
  | Set_error string

text \<open>
  Everything a run does to the outside is recorded in order: the requests to the
  collaborators and the writes to the store.
\<close>

datatype event =
    GenerateScript json
  | Chat json json
  | CreateVideo json json
  | GetTaskStatus json
  | Sleep nat
  | UploadMedia json
  | CreatePost string json string json "(string \<times> json) list"
  | AddWorkflowRun nat string
  | AddVideo nat string
  | UpdateVideo nat "video_field list"
  | CompleteWorkflowRun nat string
  | LogExecution nat string

text \<open>Rows of the tables \<open>videos\<close>, \<open>workflow_runs\<close>, \<open>workflows\<close>, \<open>workflow_executions\<close>.\<close>

record video =
  v_id :: nat
  v_idea_data :: json
  v_script_data :: "json option"
  v_sora_task_id :: "json option"
  v_video_url :: "json option"
  v_status :: string
  v_posted_tiktok :: bool
  v_posted_instagram :: bool
  v_posted_youtube :: bool
  v_error :: "string option"

record workflow_run =
  r_id :: nat
  r_completed :: bool
  r_status :: string
  r_video_id :: "nat option"
  r_error :: "string option"

record workflow =
  wf_id :: nat
  wf_name :: string
  wf_type :: string
  wf_config :: json
  wf_status :: string
  wf_total_runs :: nat
  wf_successful_runs :: nat
  wf_failed_runs :: nat

record execution =
  x_id :: nat
  x_workflow_id :: nat
  x_status :: string
  x_result :: "json option"
  x_error :: "json option"

text \<open>
  The state a run works on: the four tables (one SQLite file), the module-level idea
  bank, the engine's \<open>current_idea_index\<close> and the record of events. The store is
  assumed to work: no statement of database.py or workflow_manager.py raises.
\<close>

record world =
  videos :: "video list"
  workflow_runs :: "workflow_run list"
  workflows :: "workflow list"
  workflow_executions :: "execution list"
  idea_bank :: "json list"
  current_idea_index :: int
  events :: "event list"

definition emit :: "world \<Rightarrow> event \<Rightarrow> world" where
  "emit w e = w\<lparr>events := events w @ [e]\<rparr>"

text \<open>\<open>cursor.lastrowid\<close> of an AUTOINCREMENT key: above every id in the table.\<close>

definition fresh_id :: "nat list \<Rightarrow> nat" where
  "fresh_id ids = Suc (fold max ids 0)"

section \<open>database.py\<close>

definition truthy :: "json \<Rightarrow> bool" where
  "truthy v =
     (case v of
        JNull \<Rightarrow> False
      | JBool b \<Rightarrow> b
      | JNum n \<Rightarrow> n \<noteq> 0
      | JStr s \<Rightarrow> s \<noteq> []
      | JArr xs \<Rightarrow> xs \<noteq> []
      | JObj kvs \<Rightarrow> kvs \<noteq> [])"

definition add_video :: "world \<Rightarrow> json \<Rightarrow> json \<Rightarrow> nat \<times> world" where
  "add_video w idea_data script_data =
     (let video_id = fresh_id (map v_id (videos w));
          row = \<lparr>v_id = video_id,
                 v_idea_data = idea_data,
                 v_script_data = (if truthy script_data then Some script_data else None),
                 v_sora_task_id = None,
                 v_video_url = None,
                 v_status = ''created'',
                 v_posted_tiktok = False,
                 v_posted_instagram = False,
                 v_posted_youtube = False,
                 v_error = None\<rparr>
      in (video_id, emit (w\<lparr>videos := videos w @ [row]\<rparr>) (AddVideo video_id ''created'')))"

fun set_field :: "video_field \<Rightarrow> video \<Rightarrow> video" where
  "set_field (Set_sora_task_id t) v = v\<lparr>v_sora_task_id := Some t\<rparr>"
| "set_field (Set_video_url u) v = v\<lparr>v_video_url := Some u\<rparr>"
| "set_field (Set_status s) v = v\<lparr>v_status := s\<rparr>"
| "set_field (Set_posted_youtube b) v = v\<lparr>v_posted_youtube := b\<rparr>"
| "set_field (Set_posted_instagram b) v = v\<lparr>v_posted_instagram := b\<rparr>"
| "set_field (Set_posted_tiktok b) v = v\<lparr>v_posted_tiktok := b\<rparr>"
| "set_field (Set_error m) v = v\<lparr>v_error := Some m\<rparr>"

text \<open>\<open>UPDATE videos SET ... WHERE id = ?\<close>: every row with that id, none if there is none.\<close>

definition update_video :: "world \<Rightarrow> nat \<Rightarrow> video_field list \<Rightarrow> world" where
  "update_video w video_id kwargs =
     emit (w\<lparr>videos := map (\<lambda>v. if v_id v = video_id then fold set_field kwargs v else v) (videos w)\<rparr>)
          (UpdateVideo video_id kwargs)"

definition add_workflow_run :: "world \<Rightarrow> nat \<times> world" where
  "add_workflow_run w =
     (let run_id = fresh_id (map r_id (workflow_runs w));
          row = \<lparr>r_id = run_id, r_completed = False, r_status = ''started'',
                 r_video_id = None, r_error = None\<rparr>
      in (run_id, emit (w\<lparr>workflow_runs := workflow_runs w @ [row]\<rparr>) (AddWorkflowRun run_id ''started'')))"

definition complete_workflow_run ::
  "world \<Rightarrow> nat \<Rightarrow> string \<Rightarrow> nat option \<Rightarrow> string option \<Rightarrow> world" where
  "complete_workflow_run w run_id status video_id error =
     emit (w\<lparr>workflow_runs :=
              map (\<lambda>r. if r_id r = run_id
                        then r\<lparr>r_completed := True, r_status := status,
                               r_video_id := video_id, r_error := error\<rparr>
                        else r)
                  (workflow_runs w)\<rparr>)
          (CompleteWorkflowRun run_id status)"

section \<open>KieAPI.wait_for_completion (api_clients.py)\<close>

definition digit_char :: "nat \<Rightarrow> char" where
  "digit_char d = ''0123456789'' ! d"

function str_nat :: "nat \<Rightarrow> string" where
  "str_nat n = (if n < 10 then [digit_char n] else str_nat (n div 10) @ [digit_char (n mod 10)])"
  by pat_completeness auto
termination
  by (relation "measure (\<lambda>n. n)") auto

text \<open>
  The loop \<open>while time.time() - start_time < max_wait\<close>. Time is counted in the unit of
  \<open>max_wait\<close> and \<open>check_interval\<close>: \<open>elapsed\<close> is \<open>time.time() - start_time\<close> at the
  head of the loop, the \<open>k\<close>-th status request takes the duration the environment gives
  it, \<open>time.sleep\<close> takes \<open>check_interval\<close>. With a zero interval and requests that
  take no time the loop does not end, so the result is an option: \<open>None\<close> is a call
  that never returns.
\<close>

text \<open>\<open>result.get('data', {}).get('status')\<close>\<close>

definition status_of :: "json \<Rightarrow> exn + json" where
  "status_of result =
     (case get result ''data'' (JObj []) of
        Inl e \<Rightarrow> Inl e
      | Inr data \<Rightarrow> get data ''status'' JNull)"

partial_function (option) wait_loop ::
  "env \<Rightarrow> json \<Rightarrow> nat \<Rightarrow> nat \<Rightarrow> nat \<Rightarrow> nat \<Rightarrow> event list \<Rightarrow> ((exn + json) \<times> event list) option" where
  "wait_loop env task_id max_wait check_interval k elapsed evs =
     (if elapsed < max_wait then
        (let evs1 = evs @ [GetTaskStatus task_id] in
         case snd (get_task_status env k) of
           Inl e \<Rightarrow> Some (Inl e, evs1)
         | Inr result \<Rightarrow>
             (case status_of result of
                Inl e \<Rightarrow> Some (Inl e, evs1)
              | Inr status \<Rightarrow>
                  if status = JStr ''SUCCESS'' then Some (Inr result, evs1)
                  else if status = JStr ''FAILED'' \<or> status = JStr ''ERROR''
                  then Some (Inl (Raise Exception (''Video generation failed: '' @ str_of env result)), evs1)
                  else wait_loop env task_id max_wait check_interval (Suc k)
                         (elapsed + fst (get_task_status env k) + check_interval)
                         (evs1 @ [Sleep check_interval])))
      else Some (Inl (Raise TimeoutError
                   (''Video generation timed out after '' @ str_nat max_wait @ '' seconds'')), evs))"

declare wait_loop.simps [code]

definition wait_for_completion ::
  "env \<Rightarrow> json \<Rightarrow> nat \<Rightarrow> nat \<Rightarrow> event list \<Rightarrow> ((exn + json) \<times> event list) option" where
  "wait_for_completion env task_id max_wait check_interval evs =
     wait_loop env task_id max_wait check_interval 0 0 evs"


text \<open>
  \<open>elapsed_at env check_interval k\<close> is the time on the loop's clock when it is about
  to make request \<open>k\<close>, all earlier requests having left the task unfinished.
\<close>

fun elapsed_at :: "env \<Rightarrow> nat \<Rightarrow> nat \<Rightarrow> nat" where
  "elapsed_at env check_interval 0 = 0"
| "elapsed_at env check_interval (Suc k) =
     elapsed_at env check_interval k + fst (get_task_status env k) + check_interval"

text \<open>Request \<open>k\<close> answers, with a status that is none of SUCCESS, FAILED, ERROR.\<close>

definition pending_poll :: "env \<Rightarrow> nat \<Rightarrow> bool" where
  "pending_poll env k =
     (case snd (get_task_status env k) of
        Inl e \<Rightarrow> False
      | Inr result \<Rightarrow>
          (case status_of result of
             Inl e \<Rightarrow> False
           | Inr status \<Rightarrow>
               status \<noteq> JStr ''SUCCESS'' \<and> status \<noteq> JStr ''FAILED'' \<and> status \<noteq> JStr ''ERROR''))"

definition all_pending_before :: "env \<Rightarrow> nat \<Rightarrow> bool" where
  "all_pending_before env k = list_all (pending_poll env) [0..<k]"


section \<open>WorkflowEngine.run_workflow (workflow.py)\<close>

text \<open>How an f-string renders a value: a string as it is, anything else through \<open>str\<close>.\<close>

definition fmt :: "env \<Rightarrow> json \<Rightarrow> string" where
  "fmt env v = (case v of JStr s \<Rightarrow> s | _ \<Rightarrow> str_of env v)"

text \<open>
  Lines 88-93 of workflow.py (137-141 of workflow_executor.py): the result URL out of
  \<open>result['data']['resultJson']\<close>, decoded first when it is a string.
\<close>

definition extract_video_url :: "env \<Rightarrow> json \<Rightarrow> exn + json" where
  "extract_video_url env result =
     (case subscript result ''data'' of
        Inl e \<Rightarrow> Inl e
      | Inr data \<Rightarrow>
          (case subscript data ''resultJson'' of
             Inl e \<Rightarrow> Inl e
           | Inr video_url \<Rightarrow>
               (case video_url of
                  JStr s \<Rightarrow>
                    (case loads env s of
                       Inl e \<Rightarrow> Inl e
                     | Inr decoded \<Rightarrow>
                         (case subscript decoded ''resultUrls'' of
                            Inl e \<Rightarrow> Inl e
                          | Inr urls \<Rightarrow> index0 urls))
                | _ \<Rightarrow>
                    (case subscript video_url ''resultUrls'' of
                       Inl e \<Rightarrow> Inl e
                     | Inr urls \<Rightarrow> index0 urls))))"

text \<open>What steps 1 to 5 hand to step 6.\<close>

record prepared =
  p_script :: json
  p_video_id :: nat
  p_video_url :: json
  p_media_url :: json

text \<open>
  Steps 3 to 5 (lines 72-101), entered with the video record created. The result is
  the exception that left the \<open>try\<close> block or the values step 6 needs, and the world
  at that moment.
\<close>

definition steps_3_to_5 :: "env \<Rightarrow> world \<Rightarrow> nat \<Rightarrow> json \<Rightarrow> ((exn + prepared) \<times> world) option" where
  "steps_3_to_5 env w video_id script =
     (case subscript script ''prompt'' of
        Inl e \<Rightarrow> Some (Inl e, w)
      | Inr prompt \<Rightarrow>
          (let w1 = emit w (CreateVideo prompt (JStr ''9:16'')) in
           case create_video env of
             Inl e \<Rightarrow> Some (Inl e, w1)
           | Inr sora_response \<Rightarrow>
               (case subscript sora_response ''data'' of
                  Inl e \<Rightarrow> Some (Inl e, w1)
                | Inr data \<Rightarrow>
                    (case subscript data ''taskId'' of
                       Inl e \<Rightarrow> Some (Inl e, w1)
                     | Inr task_id \<Rightarrow>
                         (let w2 = update_video w1 video_id [Set_sora_task_id task_id, Set_status ''generating'']
                          in case wait_for_completion env task_id 600 10 (events w2) of
                               None \<Rightarrow> None
                             | Some (waited, evs) \<Rightarrow>
                                 (let w3 = w2\<lparr>events := evs\<rparr> in
                                  case waited of
                                    Inl e \<Rightarrow> Some (Inl e, w3)
                                  | Inr result \<Rightarrow>
                                      (case extract_video_url env result of
                                         Inl e \<Rightarrow> Some (Inl e, w3)
                                       | Inr video_url \<Rightarrow>
                                           (let w4 = update_video w3 video_id [Set_video_url video_url, Set_status ''generated''];
                                                w5 = emit w4 (UploadMedia video_url)
                                            in case upload_media env of
                                                 Inl e \<Rightarrow> Some (Inl e, w5)
                                               | Inr media \<Rightarrow>
                                                   (case subscript media ''url'' of
                                                      Inl e \<Rightarrow> Some (Inl e, w5)
                                                    | Inr media_url \<Rightarrow>
                                                        Some (Inr \<lparr>p_script = script, p_video_id = video_id,
                                                                    p_video_url = video_url, p_media_url = media_url\<rparr>,
                                                              w5))))))))))"

text \<open>
  Steps 1 to 5 (lines 57-101). The middle component is the variable \<open>video_id\<close> when
  control leaves: \<open>None\<close> until \<open>add_video\<close> has returned.
\<close>

definition steps_1_to_5 :: "env \<Rightarrow> world \<Rightarrow> ((exn + prepared) \<times> nat option \<times> world) option" where
  "steps_1_to_5 env w =
     (case get_next_idea (idea_bank w) (current_idea_index w) of
        Inl e \<Rightarrow> Some (Inl e, None, w)
      | Inr (idea, next_index) \<Rightarrow>
          (let w1 = w\<lparr>current_idea_index := next_index\<rparr> in
           case subscript idea ''slug'' of
             Inl e \<Rightarrow> Some (Inl e, None, w1)
           | Inr slug \<Rightarrow>
               (let w2 = emit w1 (GenerateScript idea) in
                case generate_script env of
                  Inl e \<Rightarrow> Some (Inl e, None, w2)
                | Inr script \<Rightarrow>
                    (case subscript script ''title'' of
                       Inl e \<Rightarrow> Some (Inl e, None, w2)
                     | Inr title \<Rightarrow>
                         (case add_video w2 idea script of
                            (video_id, w3) \<Rightarrow>
                              (case steps_3_to_5 env w3 video_id script of
                                 None \<Rightarrow> None
                               | Some (r, w4) \<Rightarrow> Some (r, Some video_id, w4)))))))"

text \<open>
  The three posting blocks of step 6 (lines 106-149). Each is a \<open>try\<close> of its own:
  an exception of the request (or of building its arguments) is logged and dropped,
  and the posted flag is written only after the request has returned.
\<close>

definition post_youtube :: "env \<Rightarrow> world \<Rightarrow> nat \<Rightarrow> json \<Rightarrow> string \<Rightarrow> json \<Rightarrow> world" where
  "post_youtube env w video_id script post_content media_url =
     (case subscript script ''title'' of
        Inl e \<Rightarrow> w
      | Inr title \<Rightarrow>
          (let w1 = emit w (CreatePost ''youtube'' (JStr ''19977'') post_content media_url
                              [(''title'', title), (''containsSyntheticMedia'', JBool True)])
           in case create_post env 0 of
                Inl e \<Rightarrow> w1
              | Inr posted \<Rightarrow> update_video w1 video_id [Set_posted_youtube True]))"

definition post_instagram :: "env \<Rightarrow> world \<Rightarrow> nat \<Rightarrow> string \<Rightarrow> json \<Rightarrow> world" where
  "post_instagram env w video_id post_content media_url =
     (let w1 = emit w (CreatePost ''instagram'' (JStr ''22251'') post_content media_url [])
      in case create_post env 1 of
           Inl e \<Rightarrow> w1
         | Inr posted \<Rightarrow> update_video w1 video_id [Set_posted_instagram True])"

definition post_tiktok :: "env \<Rightarrow> world \<Rightarrow> nat \<Rightarrow> string \<Rightarrow> json \<Rightarrow> world" where
  "post_tiktok env w video_id post_content media_url =
     (let w1 = emit w (CreatePost ''tiktok'' (JStr ''22514'') post_content media_url
                         [(''isAiGenerated'', JBool True)])
      in case create_post env 2 of
           Inl e \<Rightarrow> w1
         | Inr posted \<Rightarrow> update_video w1 video_id [Set_posted_tiktok True])"

text \<open>Step 6 and the completion of the run (lines 103-162).\<close>

definition step_6 :: "env \<Rightarrow> world \<Rightarrow> nat \<Rightarrow> prepared \<Rightarrow> (exn + (string \<times> json) list) \<times> world" where
  "step_6 env w run_id p =
     (case subscript (p_script p) ''description'' of
        Inl e \<Rightarrow> (Inl e, w)
      | Inr description \<Rightarrow>
          (case get (p_script p) ''hashtags'' (JStr []) of
             Inl e \<Rightarrow> (Inl e, w)
           | Inr hashtags \<Rightarrow>
               (let post_content = fmt env description @ '' '' @ fmt env hashtags;
                    w1 = post_youtube env w (p_video_id p) (p_script p) post_content (p_media_url p);
                    w2 = post_instagram env w1 (p_video_id p) post_content (p_media_url p);
                    w3 = post_tiktok env w2 (p_video_id p) post_content (p_media_url p);
                    w4 = update_video w3 (p_video_id p) [Set_status ''completed''];
                    w5 = complete_workflow_run w4 run_id ''completed'' (Some (p_video_id p)) None
                in case subscript (p_script p) ''title'' of
                     Inl e \<Rightarrow> (Inl e, w5)
                   | Inr title \<Rightarrow>
                       (Inr [(''success'', JBool True),
                             (''video_id'', JNum (int (p_video_id p))),
                             (''video_url'', p_video_url p),
                             (''title'', title)],
                        w5))))"

text \<open>The \<open>except Exception\<close> block (lines 164-180).\<close>

definition on_exception ::
  "env \<Rightarrow> world \<Rightarrow> nat \<Rightarrow> nat option \<Rightarrow> exn \<Rightarrow> (string \<times> json) list \<times> world" where
  "on_exception env w run_id video_id e =
     (let error_msg = str_exn e;
          error_trace = format_exc env e;
          w1 = (case video_id of
                  None \<Rightarrow> w
                | Some v \<Rightarrow>
                    if v \<noteq> 0 then update_video w v [Set_status ''failed'', Set_error error_msg] else w);
          w2 = complete_workflow_run w1 run_id ''failed'' video_id (Some error_msg)
      in ([(''success'', JBool False), (''error'', JStr error_msg), (''trace'', JStr error_trace)], w2))"

definition run_workflow :: "env \<Rightarrow> world \<Rightarrow> ((string \<times> json) list \<times> world) option" where
  "run_workflow env w =
     (case add_workflow_run w of
        (run_id, w0) \<Rightarrow>
          (case steps_1_to_5 env w0 of
             None \<Rightarrow> None
           | Some (Inl e, video_id, w1) \<Rightarrow> Some (on_exception env w1 run_id video_id e)
           | Some (Inr p, video_id, w1) \<Rightarrow>
               (case step_6 env w1 run_id p of
                  (Inl e, w2) \<Rightarrow> Some (on_exception env w2 run_id video_id e)
                | (Inr result, w2) \<Rightarrow> Some (result, w2))))"


section \<open>WorkflowManager (workflow_manager.py)\<close>

text \<open>
  \<open>get_workflow(workflow_id)\<close>, called with an id and no name: a zero id selects
  nothing. The row's \<open>config\<close> column is kept decoded; it is written by
  \<open>json.dumps\<close> only, so \<open>json.loads\<close> of it does not fail.
\<close>

definition get_workflow :: "world \<Rightarrow> nat \<Rightarrow> workflow option" where
  "get_workflow w workflow_id =
     (if workflow_id \<noteq> 0 then find (\<lambda>r. wf_id r = workflow_id) (workflows w) else None)"

definition log_execution ::
  "world \<Rightarrow> nat \<Rightarrow> string \<Rightarrow> (string \<times> json) list option \<Rightarrow> json option \<Rightarrow> world" where
  "log_execution w workflow_id status result error =
     (let execution_id = fresh_id (map x_id (workflow_executions w));
          row = \<lparr>x_id = execution_id, x_workflow_id = workflow_id, x_status = status,
                 x_result = (case result of
                               None \<Rightarrow> None
                             | Some r \<Rightarrow> if r \<noteq> [] then Some (JObj r) else None),
                 x_error = error\<rparr>;
          bump = (\<lambda>r. if wf_id r = workflow_id
                       then (if status = ''success''
                             then r\<lparr>wf_total_runs := wf_total_runs r + 1,
                                    wf_successful_runs := wf_successful_runs r + 1\<rparr>
                             else r\<lparr>wf_total_runs := wf_total_runs r + 1,
                                    wf_failed_runs := wf_failed_runs r + 1\<rparr>)
                       else r)
      in emit (w\<lparr>workflow_executions := workflow_executions w @ [row],
                  workflows := map bump (workflows w)\<rparr>)
              (LogExecution workflow_id status))"

section \<open>WorkflowExecutor (workflow_executor.py)\<close>

text \<open>What a \<open>for\<close> loop runs over: the elements of a list, the characters of a string,
  the keys of a dictionary; nothing else is iterable.\<close>

definition iterate :: "json \<Rightarrow> exn + json list" where
  "iterate v =
     (case v of
        JArr xs \<Rightarrow> Inr xs
      | JStr s \<Rightarrow> Inr (map (\<lambda>c. JStr [c]) s)
      | JObj kvs \<Rightarrow> Inr (map (\<lambda>kv. JStr (fst kv)) kvs)
      | _ \<Rightarrow> Inl (Raise TypeError ''object is not iterable''))"

text \<open>
  One pass of the loop body (lines 157-189) for the platform at position \<open>i\<close>: the
  request of a known platform, nothing for any other value. \<open>True\<close> when the body
  reached \<open>posted_to.append(platform)\<close>, \<open>False\<close> when an exception was caught.
\<close>

definition post_to_platform ::
  "env \<Rightarrow> world \<Rightarrow> json \<Rightarrow> json \<Rightarrow> string \<Rightarrow> json \<Rightarrow> nat \<Rightarrow> json \<Rightarrow> bool \<times> world" where
  "post_to_platform env w config script post_content media_url i platform =
     (if platform = JStr ''youtube'' then
        (case get config ''youtube_account_id'' (JStr ''19977'') of
           Inl e \<Rightarrow> (False, w)
         | Inr account_id \<Rightarrow>
             (case get script ''title'' (JStr ''Video'') of
                Inl e \<Rightarrow> (False, w)
              | Inr title \<Rightarrow>
                  (let w1 = emit w (CreatePost ''youtube'' account_id post_content media_url
                                      [(''title'', title), (''containsSyntheticMedia'', JBool True)])
                   in case create_post env i of
                        Inl e \<Rightarrow> (False, w1)
                      | Inr posted \<Rightarrow> (True, w1))))
      else if platform = JStr ''instagram'' then
        (case get config ''instagram_account_id'' (JStr ''22251'') of
           Inl e \<Rightarrow> (False, w)
         | Inr account_id \<Rightarrow>
             (let w1 = emit w (CreatePost ''instagram'' account_id post_content media_url [])
              in case create_post env i of
                   Inl e \<Rightarrow> (False, w1)
                 | Inr posted \<Rightarrow> (True, w1)))
      else if platform = JStr ''tiktok'' then
        (case get config ''tiktok_account_id'' (JStr ''22514'') of
           Inl e \<Rightarrow> (False, w)
         | Inr account_id \<Rightarrow>
             (let w1 = emit w (CreatePost ''tiktok'' account_id post_content media_url
                                 [(''isAiGenerated'', JBool True)])
              in case create_post env i of
                   Inl e \<Rightarrow> (False, w1)
                 | Inr posted \<Rightarrow> (True, w1)))
      else (True, w))"

text \<open>The loop \<open>for platform in platforms\<close>, from position \<open>i\<close> on.\<close>

fun post_loop ::
  "env \<Rightarrow> json \<Rightarrow> json \<Rightarrow> string \<Rightarrow> json \<Rightarrow> json list \<Rightarrow> nat \<Rightarrow> json list \<Rightarrow> world \<Rightarrow> json list \<times> world" where
  "post_loop env config script post_content media_url [] i posted_to w = (posted_to, w)"
| "post_loop env config script post_content media_url (platform # rest) i posted_to w =
     (case post_to_platform env w config script post_content media_url i platform of
        (appended, w1) \<Rightarrow>
          post_loop env config script post_content media_url rest (Suc i)
            (if appended then posted_to @ [platform] else posted_to) w1)"

text \<open>What the first part of \<open>_execute_video_creation\<close> hands to the posting loop.\<close>

record uploaded =
  u_idea :: json
  u_script :: json
  u_video_url :: json
  u_media_url :: json

text \<open>
  Lines 94-99: the idea. \<open>get_next_idea()\<close> is called with its default index 0 and
  the index it returns is dropped.
\<close>

definition choose_idea :: "world \<Rightarrow> json \<Rightarrow> exn + json" where
  "choose_idea w config =
     (case get config ''idea_bank'' JNull of
        Inl e \<Rightarrow> Inl e
      | Inr bank_name \<Rightarrow>
          if bank_name = JStr ''default''
          then (case get_next_idea (idea_bank w) 0 of
                  Inl e \<Rightarrow> Inl e
                | Inr (idea, next_index) \<Rightarrow> Inr idea)
          else get config ''custom_idea'' (JObj []))"

text \<open>
  Lines 109-118: the response of the AI decoded, or, when \<open>json.loads\<close> rejects it,
  a script built from the response text.
\<close>

definition parse_script :: "env \<Rightarrow> json \<Rightarrow> string \<Rightarrow> json" where
  "parse_script env idea script_response =
     (case loads env script_response of
        Inr decoded \<Rightarrow> decoded
      | Inl e \<Rightarrow>
          JObj [(''title'', JStr (''Video about '' @
                   (case get idea ''slug'' (JStr ''content'') of
                      Inr s \<Rightarrow> fmt env s
                    | Inl e' \<Rightarrow> []))),
                (''description'', JStr (take 200 script_response)),
                (''prompt'', JStr script_response),
                (''hashtags'', JStr ''#cute #viral #pets'')])"

text \<open>Lines 122-148, from the task id on: polling, the result URL, the upload.\<close>

definition wait_and_upload ::
  "env \<Rightarrow> world \<Rightarrow> json \<Rightarrow> json \<Rightarrow> json \<Rightarrow> ((exn + uploaded) \<times> world) option" where
  "wait_and_upload env w idea script task_id =
     (case wait_for_completion env task_id 600 10 (events w) of
        None \<Rightarrow> None
      | Some (waited, evs) \<Rightarrow>
          (let w1 = w\<lparr>events := evs\<rparr> in
           case waited of
             Inl e \<Rightarrow> Some (Inl e, w1)
           | Inr result \<Rightarrow>
               (case extract_video_url env result of
                  Inl e \<Rightarrow> Some (Inl e, w1)
                | Inr video_url \<Rightarrow>
                    (let w2 = emit w1 (UploadMedia video_url) in
                     case upload_media env of
                       Inl e \<Rightarrow> Some (Inl e, w2)
                     | Inr media \<Rightarrow>
                         (case subscript media ''url'' of
                            Inl e \<Rightarrow> Some (Inl e, w2)
                          | Inr media_url \<Rightarrow>
                              Some (Inr \<lparr>u_idea = idea, u_script = script,
                                          u_video_url = video_url, u_media_url = media_url\<rparr>,
                                    w2))))))"

text \<open>Lines 92-148: idea, script, video task, polling, upload.\<close>

definition create_and_upload :: "env \<Rightarrow> world \<Rightarrow> json \<Rightarrow> ((exn + uploaded) \<times> world) option" where
  "create_and_upload env w config =
     (case choose_idea w config of
        Inl e \<Rightarrow> Some (Inl e, w)
      | Inr idea \<Rightarrow>
          (case get idea ''slug'' (JStr ''custom'') of
             Inl e \<Rightarrow> Some (Inl e, w)
           | Inr slug \<Rightarrow>
               (let w1 = emit w (Chat idea config);
                    script = parse_script env idea (chat env)
                in case get script ''title'' (JStr ''Untitled'') of
                     Inl e \<Rightarrow> Some (Inl e, w1)
                   | Inr title \<Rightarrow>
                       (case get script ''description'' JNull of
                          Inl e \<Rightarrow> Some (Inl e, w1)
                        | Inr description \<Rightarrow>
                            (case get script ''prompt'' description of
                               Inl e \<Rightarrow> Some (Inl e, w1)
                             | Inr prompt \<Rightarrow>
                                 (case get config ''aspect_ratio'' (JStr ''9:16'') of
                                    Inl e \<Rightarrow> Some (Inl e, w1)
                                  | Inr aspect_ratio \<Rightarrow>
                                      (let w2 = emit w1 (CreateVideo prompt aspect_ratio) in
                                       case create_video env of
                                         Inl e \<Rightarrow> Some (Inl e, w2)
                                       | Inr sora_response \<Rightarrow>
                                           (case subscript sora_response ''data'' of
                                              Inl e \<Rightarrow> Some (Inl e, w2)
                                            | Inr data \<Rightarrow>
                                                (case subscript data ''taskId'' of
                                                   Inl e \<Rightarrow> Some (Inl e, w2)
                                                 | Inr task_id \<Rightarrow>
                                                     wait_and_upload env w2 idea script task_id)))))))))"

definition default_platforms :: json where
  "default_platforms = JArr [JStr ''tiktok'', JStr ''instagram'', JStr ''youtube'']"

text \<open>Lines 150-199: the platform list, the posting loop and the returned dictionary.\<close>

definition post_and_return ::
  "env \<Rightarrow> world \<Rightarrow> workflow \<Rightarrow> uploaded \<Rightarrow> (exn + (string \<times> json) list) \<times> world" where
  "post_and_return env w workflow u =
     (case get (wf_config workflow) ''platforms'' default_platforms of
        Inl e \<Rightarrow> (Inl e, w)
      | Inr platforms \<Rightarrow>
          (case get (u_script u) ''description'' (JStr []) of
             Inl e \<Rightarrow> (Inl e, w)
           | Inr description \<Rightarrow>
               (case get (u_script u) ''hashtags'' (JStr []) of
                  Inl e \<Rightarrow> (Inl e, w)
                | Inr hashtags \<Rightarrow>
                    (let post_content = fmt env description @ '' '' @ fmt env hashtags in
                     case iterate platforms of
                       Inl e \<Rightarrow> (Inl e, w)
                     | Inr platform_list \<Rightarrow>
                         (case post_loop env (wf_config workflow) (u_script u) post_content
                                 (u_media_url u) platform_list 0 [] w of
                            (posted_to, w1) \<Rightarrow>
                              (case get (u_script u) ''title'' JNull of
                                 Inl e \<Rightarrow> (Inl e, w1)
                               | Inr title \<Rightarrow>
                                   (case get (u_idea u) ''slug'' (JStr ''custom'') of
                                      Inl e \<Rightarrow> (Inl e, w1)
                                    | Inr idea_slug \<Rightarrow>
                                        (Inr [(''success'', JBool True),
                                              (''workflow_id'', JNum (int (wf_id workflow))),
                                              (''workflow_name'', JStr (wf_name workflow)),
                                              (''video_url'', u_video_url u),
                                              (''title'', title),
                                              (''posted_to'', JArr posted_to),
                                              (''idea_slug'', idea_slug)],
                                         w1))))))))"

definition execute_video_creation ::
  "env \<Rightarrow> world \<Rightarrow> workflow \<Rightarrow> ((exn + (string \<times> json) list) \<times> world) option" where
  "execute_video_creation env w workflow =
     (case create_and_upload env w (wf_config workflow) of
        None \<Rightarrow> None
      | Some (Inl e, w1) \<Rightarrow> Some (Inl e, w1)
      | Some (Inr u, w1) \<Rightarrow> Some (post_and_return env w1 workflow u))"

text \<open>The three other kinds of workflow return a fixed dictionary.\<close>

definition execute_engagement :: "workflow \<Rightarrow> (string \<times> json) list" where
  "execute_engagement workflow =
     [(''success'', JBool True), (''workflow_id'', JNum (int (wf_id workflow))),
      (''message'', JStr ''Engagement workflow (coming soon)'')]"

definition execute_analytics :: "workflow \<Rightarrow> (string \<times> json) list" where
  "execute_analytics workflow =
     [(''success'', JBool True), (''workflow_id'', JNum (int (wf_id workflow))),
      (''message'', JStr ''Analytics workflow (coming soon)'')]"

definition execute_custom :: "workflow \<Rightarrow> (string \<times> json) list" where
  "execute_custom workflow =
     [(''success'', JBool True), (''workflow_id'', JNum (int (wf_id workflow))),
      (''message'', JStr ''Custom workflow executed'')]"

text \<open>Lines 54-63: the route by \<open>workflow['type']\<close>.\<close>

definition route :: "env \<Rightarrow> world \<Rightarrow> workflow \<Rightarrow> ((exn + (string \<times> json) list) \<times> world) option" where
  "route env w workflow =
     (if wf_type workflow = ''video_creation'' then execute_video_creation env w workflow
      else if wf_type workflow = ''engagement'' then Some (Inr (execute_engagement workflow), w)
      else if wf_type workflow = ''analytics'' then Some (Inr (execute_analytics workflow), w)
      else if wf_type workflow = ''custom'' then Some (Inr (execute_custom workflow), w)
      else Some (Inr [(''success'', JBool False),
                      (''error'', JStr (''Unknown workflow type: '' @ wf_type workflow))], w))"

definition execute_workflow :: "env \<Rightarrow> world \<Rightarrow> nat \<Rightarrow> ((string \<times> json) list \<times> world) option" where
  "execute_workflow env w workflow_id =
     (case get_workflow w workflow_id of
        None \<Rightarrow> Some ([(''success'', JBool False), (''error'', JStr ''Workflow not found'')], w)
      | Some workflow \<Rightarrow>
          if wf_status workflow \<noteq> ''active''
          then Some ([(''success'', JBool False),
                      (''error'', JStr (''Workflow is '' @ wf_status workflow))], w)
          else
            (case route env w workflow of
               None \<Rightarrow> None
             | Some (Inr result, w1) \<Rightarrow>
                 (case map_of result ''success'' of
                    None \<Rightarrow>
                      Some ([(''success'', JBool False), (''error'', JStr (quoted ''success'')),
                             (''trace'', JStr (format_exc env (Raise KeyError (quoted ''success''))))],
                            log_execution w1 workflow_id ''failed'' None (Some (JStr (quoted ''success''))))
                  | Some success \<Rightarrow>
                      if truthy success
                      then Some (result, log_execution w1 workflow_id ''success'' (Some result) None)
                      else Some (result, log_execution w1 workflow_id ''failed'' None (map_of result ''error'')))
             | Some (Inl e, w1) \<Rightarrow>
                 Some ([(''success'', JBool False), (''error'', JStr (str_exn e)),
                        (''trace'', JStr (format_exc env e))],
                       log_execution w1 workflow_id ''failed'' None (Some (JStr (str_exn e))))))"


section \<open>Observations on a run\<close>

text \<open>The time \<open>n\<close> requests and sleeps take, starting with request \<open>k\<close>.\<close>

fun span :: "env \<Rightarrow> nat \<Rightarrow> nat \<Rightarrow> nat \<Rightarrow> nat" where
  "span env check_interval k 0 = 0"
| "span env check_interval k (Suc n) =
     fst (get_task_status env k) + check_interval + span env check_interval (Suc k) n"

text \<open>The events of \<open>w'\<close> that \<open>w\<close> does not have yet.\<close>

definition new_events :: "world \<Rightarrow> world \<Rightarrow> event list" where
  "new_events w w' = drop (length (events w)) (events w')"

fun is_poll_event :: "event \<Rightarrow> bool" where
  "is_poll_event (GetTaskStatus t) = True"
| "is_poll_event (Sleep d) = True"
| "is_poll_event e = False"

fun is_upload_or_post :: "event \<Rightarrow> bool" where
  "is_upload_or_post (UploadMedia u) = True"
| "is_upload_or_post (CreatePost p a c m k) = True"
| "is_upload_or_post e = False"

text \<open>The status values the events write to video \<open>v\<close>, in order.\<close>

fun status_of_field :: "video_field \<Rightarrow> string list" where
  "status_of_field (Set_status s) = [s]"
| "status_of_field f = []"

fun status_writes :: "nat \<Rightarrow> event list \<Rightarrow> string list" where
  "status_writes v [] = []"
| "status_writes v (AddVideo v' s # evs) = (if v' = v then [s] else []) @ status_writes v evs"
| "status_writes v (UpdateVideo v' kwargs # evs) =
     (if v' = v then concat (map status_of_field kwargs) else []) @ status_writes v evs"
| "status_writes v (e # evs) = status_writes v evs"

text \<open>
  The state machine of a video record: \<open>created\<close>, \<open>generating\<close>, \<open>generated\<close>,
  \<open>completed\<close> in this order, and \<open>failed\<close> from each of the first three.
\<close>

definition status_step :: "string \<Rightarrow> string \<Rightarrow> bool" where
  "status_step a b =
     ((a = ''created'' \<and> b = ''generating'') \<or>
      (a = ''generating'' \<and> b = ''generated'') \<or>
      (a = ''generated'' \<and> b = ''completed'') \<or>
      ((a = ''created'' \<or> a = ''generating'' \<or> a = ''generated'') \<and> b = ''failed''))"

fun follows :: "string list \<Rightarrow> bool" where
  "follows (a # b # rest) = (status_step a b \<and> follows (b # rest))"
| "follows xs = True"

definition lifecycle :: "string list \<Rightarrow> bool" where
  "lifecycle xs = (case xs of [] \<Rightarrow> True | s # rest \<Rightarrow> s = ''created'' \<and> follows xs)"



section \<open>Sample environments\<close>

text \<open>
  A run in which every collaborator answers: the video is ready at the third status
  request, and the post at position 1 is refused.
\<close>

definition sample_script :: json where
  "sample_script =
     JObj [(''title'', JStr ''T''), (''description'', JStr ''D''),
           (''prompt'', JStr ''P''), (''hashtags'', JStr ''#a #b'')]"

definition sample_status :: "string \<Rightarrow> json" where
  "sample_status s =
     JObj [(''data'', JObj [(''status'', JStr s),
                            (''resultJson'', JObj [(''resultUrls'', JArr [JStr ''http://x/video.mp4''])])])]"

definition sample_loads :: "string \<Rightarrow> exn + json" where
  "sample_loads s =
     (if s = ''{\"resultUrls\":[\"http://x/video.mp4\"]}''
      then Inr (JObj [(''resultUrls'', JArr [JStr ''http://x/video.mp4''])])
      else Inl (Raise JSONDecodeError ''Expecting value''))"

definition sample_env :: env where
  "sample_env =
     \<lparr>generate_script = Inr sample_script,
      chat = ''hello'',
      create_video = Inr (JObj [(''data'', JObj [(''taskId'', JStr ''t1'')])]),
      get_task_status = (\<lambda>k. (1, Inr (sample_status (if k < 2 then ''PROCESSING'' else ''SUCCESS'')))),
      upload_media = Inr (JObj [(''url'', JStr ''http://m/1'')]),
      create_post = (\<lambda>i. if i = 1 then Inl (Raise HTTPError ''500 Server Error'') else Inr (JObj [])),
      loads = sample_loads,
      str_of = (\<lambda>v. ''<value>''),
      format_exc = (\<lambda>e. ''Traceback (most recent call last)'')\<rparr>"

definition sample_workflow :: workflow where
  "sample_workflow =
     \<lparr>wf_id = 1, wf_name = ''pet-video-automation'', wf_type = ''video_creation'',
      wf_config = JObj [(''video_type'', JStr ''pet_animals''),
                        (''platforms'', JArr [JStr ''tiktok'', JStr ''instagram'', JStr ''youtube'']),
                        (''aspect_ratio'', JStr ''9:16''),
                        (''idea_bank'', JStr ''default'')],
      wf_status = ''active'', wf_total_runs = 0, wf_successful_runs = 0, wf_failed_runs = 0\<rparr>"

definition sample_bank :: "json list" where
  "sample_bank = [JObj [(''slug'', JStr ''baby-goat-happy-hops'')],
                  JObj [(''slug'', JStr ''baby-husky-mimic-sounds'')]]"

definition sample_world :: world where
  "sample_world =
     \<lparr>videos = [], workflow_runs = [], workflows = [sample_workflow], workflow_executions = [],
      idea_bank = sample_bank, current_idea_index = 0, events = []\<rparr>"

text \<open>Whether a returned dictionary holds the number \<open>n\<close> under some key.\<close>

definition result_has_id :: "(string \<times> json) list \<Rightarrow> nat \<Rightarrow> bool" where
  "result_has_id res n = list_ex (\<lambda>kv. snd kv = JNum (int n)) res"

section \<open>Rotation through the idea bank\<close>

lemma get_next_idea_nat:
  assumes "bank \<noteq> []"
  shows "get_next_idea bank (int i) =
           Inr (bank ! (i mod length bank), int (Suc i mod length bank))"
proof -
  have a: "int i mod int (length bank) = int (i mod length bank)"
    by (simp add: zmod_int)
  have b: "(int (i mod length bank) + 1) mod int (length bank) = int (Suc i mod length bank)"
    by (metis Suc_eq_plus1 mod_Suc_eq of_nat_Suc of_nat_mod add.commute of_nat_1 of_nat_add)
  show ?thesis using assms by (simp add: get_next_idea_def Let_def a b)
qed

lemma next_ideas_wrap:
  assumes "bank \<noteq> []"
  shows "next_ideas bank n (int (i mod length bank)) =
           Inr (map (\<lambda>j. bank ! ((i + j) mod length bank)) [0..<n], int ((i + n) mod length bank))"
proof (induction n arbitrary: i)
  case 0
  show ?case by simp
next
  case (Suc n)
  have g: "get_next_idea bank (int (i mod length bank)) =
             Inr (bank ! (i mod length bank), int (Suc i mod length bank))"
    using get_next_idea_nat[OF assms, of "i mod length bank"] by (simp add: mod_Suc_eq)
  have m: "map (\<lambda>j. bank ! ((i + j) mod length bank)) [0..<Suc n] =
             bank ! (i mod length bank) # map (\<lambda>j. bank ! ((Suc i + j) mod length bank)) [0..<n]"
    by (simp only: upt_conv_Cons[of 0 "Suc n"] map_Suc_upt[symmetric]) (simp add: comp_def)
  show ?case
    by (simp only: next_ideas.simps g Suc.IH[of "Suc i"] m sum.case prod.case) simp
qed

text \<open>
  Claim C7. For a bank of \<open>N\<close> ideas, \<open>N\<close> successive calls of \<open>get_next_idea\<close>
  starting at index 0, each fed the index the previous call returned, produce the
  entries of the bank in order, each position once, and the index is 0 again.
\<close>

theorem rotation_visits_bank_once:
  "bank \<noteq> [] \<Longrightarrow> next_ideas bank (length bank) 0 = Inr (bank, 0)"
proof -
  assume ne: "bank \<noteq> []"
  have "map (\<lambda>j. bank ! ((0 + j) mod length bank)) [0..<length bank] =
        map (\<lambda>j. bank ! j) [0..<length bank]"
    by (rule map_cong) auto
  then have "map (\<lambda>j. bank ! ((0 + j) mod length bank)) [0..<length bank] = bank"
    by (simp only: map_nth)
  then show ?thesis using next_ideas_wrap[OF ne, of "length bank" 0] by simp
qed

lemma IDEAS_nonempty: "IDEAS \<noteq> []"
  unfolding IDEAS_def by (rule list.distinct(2))

lemma IDEAS_slugs_distinct: "length IDEAS = 10 \<and> distinct (map (\<lambda>i. subscript i ''slug'') IDEAS)"
  by code_simp

theorem rotation_visits_bank_once_witness:
  "IDEAS \<noteq> [] \<and> next_ideas IDEAS (length IDEAS) 0 = Inr (IDEAS, 0)"
  using IDEAS_nonempty rotation_visits_bank_once[OF IDEAS_nonempty] by (rule conjI)

section \<open>The completion protocol\<close>

lemma wait_loop_pending_step:
  assumes "elapsed < max_wait" "pending_poll env k"
  shows "wait_loop env t max_wait ci k elapsed evs =
         wait_loop env t max_wait ci (Suc k) (elapsed + fst (get_task_status env k) + ci)
           (evs @ [GetTaskStatus t, Sleep ci])"
  using assms
  by (subst wait_loop.simps) (auto simp: pending_poll_def Let_def split: sum.splits)

lemma span_snoc: "span env ci k (Suc n) = span env ci k n + fst (get_task_status env (k + n)) + ci"
  by (induction n arbitrary: k) auto

lemma elapsed_at_span: "elapsed_at env ci k = span env ci 0 k"
  by (induction k) (auto simp: span_snoc simp del: span.simps(2))

lemma wait_loop_terminal:
  assumes "\<forall>j<n. pending_poll env (k + j)" "elapsed + span env ci k n < max_wait"
     "snd (get_task_status env (k + n)) = Inr result" "status_of result = Inr st"
     "st = JStr ''SUCCESS'' \<or> st = JStr ''FAILED'' \<or> st = JStr ''ERROR''"
  shows "\<exists>evs'. wait_loop env t max_wait ci k elapsed evs =
     Some (if st = JStr ''SUCCESS'' then Inr result
           else Inl (Raise Exception (''Video generation failed: '' @ str_of env result)), evs')"
  using assms
proof (induction n arbitrary: k elapsed evs)
  case 0
  then show ?case by (subst wait_loop.simps) (auto simp: Let_def)
next
  case (Suc n)
  have p: "pending_poll env k" using Suc.prems(1) by force
  have lt: "elapsed < max_wait" using Suc.prems(2) by simp
  have "\<exists>evs'. wait_loop env t max_wait ci (Suc k) (elapsed + fst (get_task_status env k) + ci) (evs @ [GetTaskStatus t, Sleep ci]) =
     Some (if st = JStr ''SUCCESS'' then Inr result
           else Inl (Raise Exception (''Video generation failed: '' @ str_of env result)), evs')"
    using Suc.prems by (intro Suc.IH) (auto simp: add.assoc)
  then show ?case using wait_loop_pending_step[OF lt p] by simp
qed

lemma wait_loop_timeout:
  assumes "\<forall>j<n. pending_poll env (k + j)" "max_wait \<le> elapsed + span env ci k n"
  shows "\<exists>evs'. wait_loop env t max_wait ci k elapsed evs =
     Some (Inl (Raise TimeoutError (''Video generation timed out after '' @ str_nat max_wait @ '' seconds'')), evs')"
  using assms
proof (induction n arbitrary: k elapsed evs)
  case 0
  then show ?case by (subst wait_loop.simps) (auto simp: Let_def)
next
  case (Suc n)
  show ?case
  proof (cases "elapsed < max_wait")
    case False
    then show ?thesis by (subst wait_loop.simps) (auto simp: Let_def)
  next
    case True
    have p: "pending_poll env k" using Suc.prems(1) by force
    have "\<exists>evs'. wait_loop env t max_wait ci (Suc k) (elapsed + fst (get_task_status env k) + ci) (evs @ [GetTaskStatus t, Sleep ci]) =
      Some (Inl (Raise TimeoutError (''Video generation timed out after '' @ str_nat max_wait @ '' seconds'')), evs')"
      using Suc.prems by (intro Suc.IH) (auto simp: add.assoc)
    then show ?thesis using wait_loop_pending_step[OF True p] by simp
  qed
qed

lemma all_pending_beforeD: "all_pending_before env k \<Longrightarrow> \<forall>j<k. pending_poll env (0 + j)"
  by (simp add: all_pending_before_def list_all_iff)

text \<open>
  Claim C3. Let the first \<open>k\<close> status requests leave the task unfinished. If request
  \<open>k\<close> is made within the budget and answers SUCCESS, \<open>wait_for_completion\<close> returns
  that answer; if it answers FAILED or ERROR, the call raises \<open>Exception\<close> (the
  generation failure); if the budget has elapsed by then, the call raises
  \<open>TimeoutError\<close>, a class other than \<open>Exception\<close>. The engine and the executor
  call it with a budget of 600 and the default interval of 10.
\<close>

theorem wait_for_completion_protocol:
  assumes "all_pending_before env k"
  shows "(elapsed_at env check_interval k < max_wait \<longrightarrow>
            (\<forall>result. snd (get_task_status env k) = Inr result \<longrightarrow>
               (status_of result = Inr (JStr ''SUCCESS'') \<longrightarrow>
                  (\<exists>evs'. wait_for_completion env task_id max_wait check_interval evs = Some (Inr result, evs'))) \<and>
               (status_of result = Inr (JStr ''FAILED'') \<or> status_of result = Inr (JStr ''ERROR'') \<longrightarrow>
                  (\<exists>evs'. wait_for_completion env task_id max_wait check_interval evs =
                     Some (Inl (Raise Exception (''Video generation failed: '' @ str_of env result)), evs')))))
       \<and> (max_wait \<le> elapsed_at env check_interval k \<longrightarrow>
            (\<exists>evs'. wait_for_completion env task_id max_wait check_interval evs =
               Some (Inl (Raise TimeoutError
                      (''Video generation timed out after '' @ str_nat max_wait @ '' seconds'')), evs')))
       \<and> Exception \<noteq> TimeoutError"
proof -
  note p = all_pending_beforeD[OF assms]
  have a: "\<exists>evs'. wait_for_completion env task_id max_wait check_interval evs = Some (Inr result, evs')"
    if "elapsed_at env check_interval k < max_wait" "snd (get_task_status env k) = Inr result"
       "status_of result = Inr (JStr ''SUCCESS'')" for result
    using wait_loop_terminal[OF p, of 0 check_interval max_wait result "JStr ''SUCCESS''" task_id evs] that
    by (simp add: wait_for_completion_def elapsed_at_span)
  have b: "\<exists>evs'. wait_for_completion env task_id max_wait check_interval evs =
             Some (Inl (Raise Exception (''Video generation failed: '' @ str_of env result)), evs')"
    if "elapsed_at env check_interval k < max_wait" "snd (get_task_status env k) = Inr result"
       "status_of result = Inr (JStr ''FAILED'') \<or> status_of result = Inr (JStr ''ERROR'')" for result
  proof -
    from that(3) obtain st where st: "status_of result = Inr st" "st = JStr ''FAILED'' \<or> st = JStr ''ERROR''"
      by auto
    then have "st \<noteq> JStr ''SUCCESS''" by auto
    then show ?thesis
      using wait_loop_terminal[OF p, of 0 check_interval max_wait result st task_id evs] that(1,2) st
      by (simp add: wait_for_completion_def elapsed_at_span)
  qed
  have c: "\<exists>evs'. wait_for_completion env task_id max_wait check_interval evs =
               Some (Inl (Raise TimeoutError
                      (''Video generation timed out after '' @ str_nat max_wait @ '' seconds'')), evs')"
    if "max_wait \<le> elapsed_at env check_interval k"
    using wait_loop_timeout[OF p, of max_wait 0 check_interval task_id evs] that
    by (simp add: wait_for_completion_def elapsed_at_span)
  show ?thesis using a b c by blast
qed

lemma sample_pending: "k < 2 \<Longrightarrow> pending_poll sample_env k"
  by (simp add: pending_poll_def sample_env_def sample_status_def status_of_def)

lemma timeout_pending: "pending_poll (sample_env\<lparr>get_task_status := \<lambda>k. (0, Inr (sample_status ''PROCESSING''))\<rparr>) k"
  by (simp add: pending_poll_def sample_env_def sample_status_def status_of_def)

lemma elapsed_at_const: "\<forall>k. fst (get_task_status env k) = d \<Longrightarrow> elapsed_at env ci k = k * (d + ci)"
  by (induction k) auto

theorem wait_for_completion_protocol_witness:
  "(\<exists>evs'. wait_for_completion sample_env (JStr ''t1'') 600 10 [] = Some (Inr (sample_status ''SUCCESS''), evs'))
 \<and> (\<exists>evs'. wait_for_completion (sample_env\<lparr>get_task_status := \<lambda>k. (1, Inr (sample_status ''FAILED''))\<rparr>) (JStr ''t1'') 600 10 [] =
       Some (Inl (Raise Exception ''Video generation failed: <value>''), evs'))
 \<and> (\<exists>evs'. wait_for_completion (sample_env\<lparr>get_task_status := \<lambda>k. (0, Inr (sample_status ''PROCESSING''))\<rparr>) (JStr ''t1'') 600 10 [] =
       Some (Inl (Raise TimeoutError ''Video generation timed out after 600 seconds''), evs'))"
proof -
  have p2: "all_pending_before sample_env 2"
    by (simp add: all_pending_before_def list_all_iff sample_pending)
  have e2: "elapsed_at sample_env 10 2 = 22"
    by (simp add: numeral_2_eq_2 sample_env_def)
  have s2: "snd (get_task_status sample_env 2) = Inr (sample_status ''SUCCESS'')"
    by (simp add: sample_env_def)
  have st: "status_of (sample_status s) = Inr (JStr s)" for s
    by (simp add: status_of_def sample_status_def)
  have a: "\<exists>evs'. wait_for_completion sample_env (JStr ''t1'') 600 10 [] = Some (Inr (sample_status ''SUCCESS''), evs')"
    using wait_for_completion_protocol[OF p2, of 10 600 "JStr ''t1''" "[]"] e2 s2 st by simp
  let ?f = "sample_env\<lparr>get_task_status := \<lambda>k. (1, Inr (sample_status ''FAILED''))\<rparr>"
  have p0: "all_pending_before ?f 0" by (simp add: all_pending_before_def)
  have b: "\<exists>evs'. wait_for_completion ?f (JStr ''t1'') 600 10 [] =
       Some (Inl (Raise Exception ''Video generation failed: <value>''), evs')"
    using wait_for_completion_protocol[OF p0, of 10 600 "JStr ''t1''" "[]"] st
    by (simp add: sample_env_def)
  let ?t = "sample_env\<lparr>get_task_status := \<lambda>k. (0, Inr (sample_status ''PROCESSING''))\<rparr>"
  have p60: "all_pending_before ?t 60"
    by (simp add: all_pending_before_def list_all_iff timeout_pending)
  have e60: "elapsed_at ?t 10 60 = 600"
    by (subst elapsed_at_const[where d = 0]) simp_all
  have c: "\<exists>evs'. wait_for_completion ?t (JStr ''t1'') 600 10 [] =
       Some (Inl (Raise TimeoutError ''Video generation timed out after 600 seconds''), evs')"
    using wait_for_completion_protocol[OF p60, of 10 600 "JStr ''t1''" "[]"] e60
    by (simp add: digit_char_def)
  show ?thesis using a b c by blast
qed

section \<open>The result URL\<close>

text \<open>
  Claim C5. When the payload's \<open>resultJson\<close> is a dictionary whose \<open>resultUrls\<close> is a
  non-empty list, or a string that \<open>json.loads\<close> decodes to such a dictionary, the
  extracted URL is the first element of that list. In particular the string
  \<open>{"resultUrls":["http://x/video.mp4"]}\<close> and the nested object of the same shape both
  give \<open>http://x/video.mp4\<close>.
\<close>

theorem extract_video_url_first_result_url:
  assumes "subscript result ''data'' = Inr data"
      and "map_of kvs ''resultUrls'' = Some (JArr (url # urls))"
  shows "(subscript data ''resultJson'' = Inr (JObj kvs) \<longrightarrow> extract_video_url env result = Inr url)
       \<and> (\<forall>s. subscript data ''resultJson'' = Inr (JStr s) \<and> loads env s = Inr (JObj kvs)
                \<longrightarrow> extract_video_url env result = Inr url)
       \<and> (loads env ''{\"resultUrls\":[\"http://x/video.mp4\"]}'' =
              Inr (JObj [(''resultUrls'', JArr [JStr ''http://x/video.mp4''])])
            \<longrightarrow> extract_video_url env
                  (JObj [(''data'', JObj [(''resultJson'', JStr ''{\"resultUrls\":[\"http://x/video.mp4\"]}'')])]) =
                Inr (JStr ''http://x/video.mp4''))
       \<and> extract_video_url env
            (JObj [(''data'', JObj [(''resultJson'', JObj [(''resultUrls'', JArr [JStr ''http://x/video.mp4''])])])]) =
          Inr (JStr ''http://x/video.mp4'')"
  using assms by (simp add: extract_video_url_def)

theorem extract_video_url_first_result_url_witness:
  "extract_video_url sample_env
     (JObj [(''data'', JObj [(''resultJson'', JStr ''{\"resultUrls\":[\"http://x/video.mp4\"]}'')])]) =
   Inr (JStr ''http://x/video.mp4'')
 \<and> extract_video_url sample_env (sample_status ''SUCCESS'') = Inr (JStr ''http://x/video.mp4'')"
proof -
  have d: "subscript (sample_status ''SUCCESS'') ''data'' =
             Inr (JObj [(''status'', JStr ''SUCCESS''),
                        (''resultJson'', JObj [(''resultUrls'', JArr [JStr ''http://x/video.mp4''])])])"
    by (simp add: sample_status_def)
  have m: "map_of [(''resultUrls'', JArr [JStr ''http://x/video.mp4''])] ''resultUrls'' =
             Some (JArr (JStr ''http://x/video.mp4'' # []))"
    by simp
  have l: "loads sample_env ''{\"resultUrls\":[\"http://x/video.mp4\"]}'' =
             Inr (JObj [(''resultUrls'', JArr [JStr ''http://x/video.mp4''])])"
    by (simp add: sample_env_def sample_loads_def)
  show ?thesis
    using extract_video_url_first_result_url[OF d m, of sample_env] l by simp
qed

section \<open>The store and the polling loop\<close>

subsection \<open>The store operations, field by field\<close>

lemma emit_fields [simp]:
  "events (emit w e) = events w @ [e]"
  "videos (emit w e) = videos w"
  "workflow_runs (emit w e) = workflow_runs w"
  "workflows (emit w e) = workflows w"
  "workflow_executions (emit w e) = workflow_executions w"
  "idea_bank (emit w e) = idea_bank w"
  "current_idea_index (emit w e) = current_idea_index w"
  by (simp_all add: emit_def)

lemma update_video_fields [simp]:
  "events (update_video w v kw) = events w @ [UpdateVideo v kw]"
  "videos (update_video w v kw) = map (\<lambda>r. if v_id r = v then fold set_field kw r else r) (videos w)"
  "workflow_runs (update_video w v kw) = workflow_runs w"
  "workflows (update_video w v kw) = workflows w"
  "workflow_executions (update_video w v kw) = workflow_executions w"
  "idea_bank (update_video w v kw) = idea_bank w"
  "current_idea_index (update_video w v kw) = current_idea_index w"
  by (simp_all add: update_video_def)

lemma complete_workflow_run_fields [simp]:
  "events (complete_workflow_run w r s v e) = events w @ [CompleteWorkflowRun r s]"
  "videos (complete_workflow_run w r s v e) = videos w"
  "workflow_runs (complete_workflow_run w r s v e) =
     map (\<lambda>x. if r_id x = r
               then x\<lparr>r_completed := True, r_status := s, r_video_id := v, r_error := e\<rparr>
               else x) (workflow_runs w)"
  "workflows (complete_workflow_run w r s v e) = workflows w"
  "workflow_executions (complete_workflow_run w r s v e) = workflow_executions w"
  "idea_bank (complete_workflow_run w r s v e) = idea_bank w"
  "current_idea_index (complete_workflow_run w r s v e) = current_idea_index w"
  by (simp_all add: complete_workflow_run_def)

lemma add_workflow_run_eq:
  "add_workflow_run w = (run_id, w') \<longleftrightarrow>
     run_id = fresh_id (map r_id (workflow_runs w)) \<and>
     w' = emit (w\<lparr>workflow_runs := workflow_runs w @
            [\<lparr>r_id = fresh_id (map r_id (workflow_runs w)), r_completed = False, r_status = ''started'',
              r_video_id = None, r_error = None\<rparr>]\<rparr>)
            (AddWorkflowRun (fresh_id (map r_id (workflow_runs w))) ''started'')"
  by (auto simp: add_workflow_run_def Let_def)

lemma add_video_fields:
  assumes "add_video w idea script = (video_id, w')"
  shows "video_id = fresh_id (map v_id (videos w))"
    and "events w' = events w @ [AddVideo video_id ''created'']"
    and "videos w' = videos w @
           [\<lparr>v_id = video_id, v_idea_data = idea,
             v_script_data = (if truthy script then Some script else None),
             v_sora_task_id = None, v_video_url = None, v_status = ''created'',
             v_posted_tiktok = False, v_posted_instagram = False, v_posted_youtube = False,
             v_error = None\<rparr>]"
    and "workflow_runs w' = workflow_runs w"
    and "workflows w' = workflows w"
    and "workflow_executions w' = workflow_executions w"
    and "idea_bank w' = idea_bank w"
    and "current_idea_index w' = current_idea_index w"
  using assms by (auto simp: add_video_def Let_def)




lemma fresh_id_pos: "fresh_id ids \<noteq> 0"
  by (simp add: fresh_id_def)

subsection \<open>Polling with a positive interval returns\<close>

lemma wait_loop_total:
  assumes "0 < ci"
  shows "\<exists>out polls. wait_loop env t max_wait ci k elapsed evs = Some (out, evs @ polls)
           \<and> list_all is_poll_event polls"
proof (induction "max_wait - elapsed" arbitrary: k elapsed evs rule: less_induct)
  case less
  show ?case
  proof (cases "elapsed < max_wait")
    case False
    then show ?thesis by (subst wait_loop.simps) (auto simp: Let_def)
  next
    case True
    have "\<exists>out polls. wait_loop env t max_wait ci (Suc k) (elapsed + fst (get_task_status env k) + ci)
             ((evs @ [GetTaskStatus t]) @ [Sleep ci]) = Some (out, ((evs @ [GetTaskStatus t]) @ [Sleep ci]) @ polls)
           \<and> list_all is_poll_event polls"
      using True assms by (intro less) auto
    then obtain out polls where r:
      "wait_loop env t max_wait ci (Suc k) (elapsed + fst (get_task_status env k) + ci)
             ((evs @ [GetTaskStatus t]) @ [Sleep ci]) = Some (out, evs @ (GetTaskStatus t # Sleep ci # polls))"
      "list_all is_poll_event polls"
      by auto
    have one: "\<exists>polls. evs @ [GetTaskStatus t] = evs @ polls \<and> list_all is_poll_event polls"
      by (rule exI[of _ "[GetTaskStatus t]"]) simp
    have more: "\<exists>ps. evs @ GetTaskStatus t # Sleep ci # polls = evs @ ps \<and> list_all is_poll_event ps"
      using r(2) by (intro exI[of _ "GetTaskStatus t # Sleep ci # polls"]) simp
    show ?thesis
      apply (subst wait_loop.simps)
      using True r one more
      by (auto simp: Let_def split: sum.splits)
  qed
qed

lemma wait_for_completion_total:
  "0 < ci \<Longrightarrow> \<exists>out polls. wait_for_completion env t max_wait ci evs = Some (out, evs @ polls)
           \<and> list_all is_poll_event polls"
  unfolding wait_for_completion_def by (rule wait_loop_total)

lemma wait_600_10:
  obtains out polls where "wait_for_completion env t 600 10 evs = Some (out, evs @ polls)"
    and "list_all is_poll_event polls"
  using wait_for_completion_total[of 10 env t 600 evs] by auto

section \<open>The engine, step by step\<close>

lemma wait_not_None [simp]: "wait_for_completion env t 600 10 evs \<noteq> None"
  using wait_for_completion_total[of 10 env t 600 evs] by auto

lemma wait_eventsD:
  "wait_for_completion env t 600 10 evs = Some (out, evs') \<Longrightarrow>
     \<exists>polls. evs' = evs @ polls \<and> list_all is_poll_event polls"
  using wait_for_completion_total[of 10 env t 600 evs] by auto

lemma status_writes_append [simp]:
  "status_writes v (xs @ ys) = status_writes v xs @ status_writes v ys"
  by (induction v xs rule: status_writes.induct) auto

lemma status_writes_polls [simp]:
  "list_all is_poll_event polls \<Longrightarrow> status_writes v polls = []"
  by (induction v polls rule: status_writes.induct) auto

lemma polls_no_upload_or_post:
  "list_all is_poll_event polls \<Longrightarrow> \<not> list_ex is_upload_or_post polls"
proof (induction polls)
  case Nil
  show ?case by simp
next
  case (Cons e polls)
  then show ?case by (cases e) auto
qed

text \<open>What steps 3 to 5 leave behind.\<close>

lemma steps_3_to_5_shape:
  "\<exists>out w' new. steps_3_to_5 env w vid script = Some (out, w')
     \<and> events w' = events w @ new
     \<and> idea_bank w' = idea_bank w
     \<and> current_idea_index w' = current_idea_index w
     \<and> workflow_runs w' = workflow_runs w
     \<and> status_writes vid new \<in> {[], [''generating''], [''generating'', ''generated'']}
     \<and> (\<forall>v. v \<noteq> vid \<longrightarrow> status_writes v new = [])
     \<and> (\<forall>p. out = Inr p \<longrightarrow> status_writes vid new = [''generating'', ''generated'']
              \<and> p_video_id p = vid \<and> p_script p = script)"
  unfolding steps_3_to_5_def
  by (auto simp: Let_def split: sum.splits option.splits dest!: wait_eventsD)




lemma wait_first_failed:
  assumes "snd (get_task_status env 0) = Inr r" "status_of r = Inr (JStr ''FAILED'')"
  shows "wait_for_completion env t 600 10 evs =
           Some (Inl (Raise Exception (''Video generation failed: '' @ str_of env r)), evs @ [GetTaskStatus t])"
  unfolding wait_for_completion_def using assms
  by (subst wait_loop.simps) (simp add: Let_def)

lemma steps_3_to_5_first_poll_failed:
  assumes "snd (get_task_status env 0) = Inr r" "status_of r = Inr (JStr ''FAILED'')"
  shows "\<exists>e w' new. steps_3_to_5 env w vid script = Some (Inl e, w')
     \<and> events w' = events w @ new \<and> \<not> list_ex is_upload_or_post new"
  unfolding steps_3_to_5_def
  by (auto simp: Let_def wait_first_failed[OF assms] split: sum.splits option.splits)

text \<open>What steps 1 to 5 leave behind.\<close>

lemma steps_1_to_5_shape:
  "\<exists>out vo w' new. steps_1_to_5 env w = Some (out, vo, w')
     \<and> events w' = events w @ new
     \<and> idea_bank w' = idea_bank w
     \<and> workflow_runs w' = workflow_runs w
     \<and> (idea_bank w \<noteq> [] \<longrightarrow>
          current_idea_index w' = (current_idea_index w + 1) mod int (length (idea_bank w)))
     \<and> (case vo of
          None \<Rightarrow> (\<forall>v. status_writes v new = []) \<and> videos w' = videos w \<and> (\<exists>e. out = Inl e)
        | Some vid \<Rightarrow>
            vid = fresh_id (map v_id (videos w))
          \<and> status_writes vid new \<in> {[''created''], [''created'', ''generating''],
                                         [''created'', ''generating'', ''generated'']}
          \<and> (\<forall>v. v \<noteq> vid \<longrightarrow> status_writes v new = [])
          \<and> (\<forall>p. out = Inr p \<longrightarrow>
                status_writes vid new = [''created'', ''generating'', ''generated'']
              \<and> p_video_id p = vid
              \<and> (\<exists>title. subscript (p_script p) ''title'' = Inr title)))"
proof (cases "get_next_idea (idea_bank w) (current_idea_index w)")
  case (Inl e)
  then have "idea_bank w = []"
    by (auto simp: get_next_idea_def Let_def split: if_splits)
  with Inl show ?thesis by (simp add: steps_1_to_5_def)
next
  case (Inr pr)
  obtain idea idx where pr: "pr = (idea, idx)" by (cases pr)
  have ne: "idea_bank w \<noteq> []" and idx: "idx = (current_idea_index w + 1) mod int (length (idea_bank w))"
    using Inr pr by (auto simp: get_next_idea_def Let_def mod_add_left_eq split: if_splits)
  show ?thesis
  proof (cases "\<exists>slug script title. subscript idea ''slug'' = Inr slug \<and> generate_script env = Inr script
                  \<and> subscript script ''title'' = Inr title")
    case False
    then show ?thesis using Inr pr idx ne
      by (auto simp: steps_1_to_5_def Let_def split: sum.splits)
  next
    case True
    then obtain slug script title where ok: "subscript idea ''slug'' = Inr slug"
      "generate_script env = Inr script" "subscript script ''title'' = Inr title"
      by blast
    let ?w2 = "emit (w\<lparr>current_idea_index := idx\<rparr>) (GenerateScript idea)"
    obtain vid w3 where av: "add_video ?w2 idea script = (vid, w3)" by (cases "add_video ?w2 idea script")
    note f = add_video_fields[OF av]
    obtain out w4 new where s35: "steps_3_to_5 env w3 vid script = Some (out, w4)"
      "events w4 = events w3 @ new" "idea_bank w4 = idea_bank w3"
      "current_idea_index w4 = current_idea_index w3" "workflow_runs w4 = workflow_runs w3"
      "status_writes vid new \<in> {[], [''generating''], [''generating'', ''generated'']}"
      "\<forall>v. v \<noteq> vid \<longrightarrow> status_writes v new = []"
      "\<forall>p. out = Inr p \<longrightarrow> status_writes vid new = [''generating'', ''generated'']
              \<and> p_video_id p = vid \<and> p_script p = script"
      using steps_3_to_5_shape[of env w3 vid script] by blast
    have run: "steps_1_to_5 env w = Some (out, Some vid, w4)"
      using Inr pr ok av s35(1) by (simp add: steps_1_to_5_def Let_def)
    have ev: "events w4 = events w @ (GenerateScript idea # AddVideo vid ''created'' # new)"
      using s35(2) f(2) by simp
    show ?thesis
      apply (rule exI[of _ out], rule exI[of _ "Some vid"], rule exI[of _ w4],
             rule exI[of _ "GenerateScript idea # AddVideo vid ''created'' # new"])
      using run ev s35 f idx ne ok(3) by auto
  qed
qed

lemma subscript_dict: "subscript s k = Inr v \<Longrightarrow> \<exists>kvs. s = JObj kvs"
  by (cases s) auto

lemma steps_1_to_5_first_poll_failed:
  assumes "snd (get_task_status env 0) = Inr r" "status_of r = Inr (JStr ''FAILED'')"
  shows "\<exists>e vo w' new. steps_1_to_5 env w = Some (Inl e, vo, w')
     \<and> events w' = events w @ new \<and> \<not> list_ex is_upload_or_post new"
proof (cases "get_next_idea (idea_bank w) (current_idea_index w)")
  case (Inl e)
  then show ?thesis by (simp add: steps_1_to_5_def)
next
  case (Inr pr)
  obtain idea idx where pr: "pr = (idea, idx)" by (cases pr)
  show ?thesis
  proof (cases "\<exists>slug script title. subscript idea ''slug'' = Inr slug \<and> generate_script env = Inr script
                  \<and> subscript script ''title'' = Inr title")
    case False
    then show ?thesis using Inr pr
      by (auto simp: steps_1_to_5_def Let_def split: sum.splits)
  next
    case True
    then obtain slug script title where ok: "subscript idea ''slug'' = Inr slug"
      "generate_script env = Inr script" "subscript script ''title'' = Inr title"
      by blast
    let ?w2 = "emit (w\<lparr>current_idea_index := idx\<rparr>) (GenerateScript idea)"
    obtain vid w3 where av: "add_video ?w2 idea script = (vid, w3)" by (cases "add_video ?w2 idea script")
    note f = add_video_fields[OF av]
    obtain e w4 new where s35: "steps_3_to_5 env w3 vid script = Some (Inl e, w4)"
      "events w4 = events w3 @ new" "\<not> list_ex is_upload_or_post new"
      using steps_3_to_5_first_poll_failed[OF assms, of w3 vid script] by blast
    have run: "steps_1_to_5 env w = Some (Inl e, Some vid, w4)"
      using Inr pr ok av s35(1) by (simp add: steps_1_to_5_def Let_def)
    have ev: "events w4 = events w @ (GenerateScript idea # AddVideo vid ''created'' # new)"
      using s35(2) f(2) by simp
    show ?thesis
      apply (rule exI[of _ e], rule exI[of _ "Some vid"], rule exI[of _ w4],
             rule exI[of _ "GenerateScript idea # AddVideo vid ''created'' # new"])
      using run ev s35(3) by simp
  qed
qed

lemma post_events:
  "\<exists>new. events (post_youtube env w vid script c m) = events w @ new \<and> (\<forall>v. status_writes v new = [])"
  "\<exists>new. events (post_instagram env w vid c m) = events w @ new \<and> (\<forall>v. status_writes v new = [])"
  "\<exists>new. events (post_tiktok env w vid c m) = events w @ new \<and> (\<forall>v. status_writes v new = [])"
  by (auto simp: post_youtube_def post_instagram_def post_tiktok_def Let_def split: sum.splits)

lemma post_frame [simp]:
  "idea_bank (post_youtube env w vid script c m) = idea_bank w"
  "idea_bank (post_instagram env w vid c m) = idea_bank w"
  "idea_bank (post_tiktok env w vid c m) = idea_bank w"
  "current_idea_index (post_youtube env w vid script c m) = current_idea_index w"
  "current_idea_index (post_instagram env w vid c m) = current_idea_index w"
  "current_idea_index (post_tiktok env w vid c m) = current_idea_index w"
  "workflow_runs (post_youtube env w vid script c m) = workflow_runs w"
  "workflow_runs (post_instagram env w vid c m) = workflow_runs w"
  "workflow_runs (post_tiktok env w vid c m) = workflow_runs w"
  by (auto simp: post_youtube_def post_instagram_def post_tiktok_def Let_def split: sum.splits)

text \<open>What step 6 leaves behind, for a script that has a title.\<close>

lemma step_6_shape:
  assumes "subscript (p_script p) ''title'' = Inr title"
  shows "\<exists>out w' new. step_6 env w run_id p = (out, w')
     \<and> events w' = events w @ new
     \<and> idea_bank w' = idea_bank w
     \<and> current_idea_index w' = current_idea_index w
     \<and> (\<forall>v. v \<noteq> p_video_id p \<longrightarrow> status_writes v new = [])
     \<and> (case out of
          Inl e \<Rightarrow> new = [] \<and> w' = w
        | Inr res \<Rightarrow> status_writes (p_video_id p) new = [''completed'']
                   \<and> map fst res = [''success'', ''video_id'', ''video_url'', ''title''])"
proof -
  obtain kvs where d: "p_script p = JObj kvs" using subscript_dict[OF assms] by blast
  show ?thesis
  proof (cases "subscript (p_script p) ''description''")
    case (Inl e)
    then show ?thesis by (simp add: step_6_def)
  next
    case (Inr description)
    let ?c = "fmt env description @ '' '' @ fmt env (case map_of kvs ''hashtags'' of None \<Rightarrow> JStr [] | Some v \<Rightarrow> v)"
    let ?w1 = "post_youtube env w (p_video_id p) (p_script p) ?c (p_media_url p)"
    let ?w2 = "post_instagram env ?w1 (p_video_id p) ?c (p_media_url p)"
    let ?w3 = "post_tiktok env ?w2 (p_video_id p) ?c (p_media_url p)"
    obtain n1 where n1: "events ?w1 = events w @ n1" "\<forall>v. status_writes v n1 = []"
      using post_events(1) by blast
    obtain n2 where n2: "events ?w2 = events ?w1 @ n2" "\<forall>v. status_writes v n2 = []"
      using post_events(2) by blast
    obtain n3 where n3: "events ?w3 = events ?w2 @ n3" "\<forall>v. status_writes v n3 = []"
      using post_events(3) by blast
    show ?thesis
      using Inr assms n1 n2 n3 d
      by (simp add: step_6_def Let_def)
  qed
qed

lemma on_exception_shape:
  "\<exists>res w'. on_exception env w run_id vo e = (res, w')
     \<and> res = [(''success'', JBool False), (''error'', JStr (str_exn e)), (''trace'', JStr (format_exc env e))]
     \<and> events w' = events w @
          (case vo of None \<Rightarrow> []
           | Some v \<Rightarrow> if v \<noteq> 0 then [UpdateVideo v [Set_status ''failed'', Set_error (str_exn e)]] else [])
          @ [CompleteWorkflowRun run_id ''failed'']
     \<and> idea_bank w' = idea_bank w
     \<and> current_idea_index w' = current_idea_index w"
  by (auto simp: on_exception_def Let_def split: option.splits)

lemma lifecycle_paths:
  "lifecycle []"
  "lifecycle [''created'', ''failed'']"
  "lifecycle [''created'', ''generating'', ''failed'']"
  "lifecycle [''created'', ''generating'', ''generated'', ''failed'']"
  "lifecycle [''created'', ''generating'', ''generated'', ''completed'']"
  by (simp_all add: lifecycle_def status_step_def)

text \<open>One run of the engine, as a whole.\<close>

lemma run_workflow_shape:
  "\<exists>res w' new. run_workflow env w = Some (res, w')
     \<and> events w' = events w @ AddWorkflowRun (fresh_id (map r_id (workflow_runs w))) ''started'' # new
     \<and> idea_bank w' = idea_bank w
     \<and> (idea_bank w \<noteq> [] \<longrightarrow>
          current_idea_index w' = (current_idea_index w + 1) mod int (length (idea_bank w)))
     \<and> (\<forall>v. lifecycle (status_writes v new))
     \<and> (map fst res = [''success'', ''video_id'', ''video_url'', ''title'']
          \<or> map fst res = [''success'', ''error'', ''trace''])"
proof -
  let ?rid = "fresh_id (map r_id (workflow_runs w))"
  obtain w0 where ar: "add_workflow_run w = (?rid, w0)"
    and w0: "events w0 = events w @ [AddWorkflowRun ?rid ''started'']" "idea_bank w0 = idea_bank w"
      "current_idea_index w0 = current_idea_index w" "videos w0 = videos w"
    by (simp add: add_workflow_run_def Let_def)
  obtain out vo w1 n1 where s: "steps_1_to_5 env w0 = Some (out, vo, w1)"
    "events w1 = events w0 @ n1" "idea_bank w1 = idea_bank w0"
    "idea_bank w0 \<noteq> [] \<longrightarrow>
          current_idea_index w1 = (current_idea_index w0 + 1) mod int (length (idea_bank w0))"
    and vo: "case vo of
          None \<Rightarrow> (\<forall>v. status_writes v n1 = []) \<and> videos w1 = videos w0 \<and> (\<exists>e. out = Inl e)
        | Some vid \<Rightarrow>
            vid = fresh_id (map v_id (videos w0))
          \<and> status_writes vid n1 \<in> {[''created''], [''created'', ''generating''],
                                         [''created'', ''generating'', ''generated'']}
          \<and> (\<forall>v. v \<noteq> vid \<longrightarrow> status_writes v n1 = [])
          \<and> (\<forall>p. out = Inr p \<longrightarrow>
                status_writes vid n1 = [''created'', ''generating'', ''generated'']
              \<and> p_video_id p = vid
              \<and> (\<exists>title. subscript (p_script p) ''title'' = Inr title))"
    using steps_1_to_5_shape[of env w0] by blast
  show ?thesis
  proof (cases out)
    case (Inl e)
    obtain res w2 where h: "on_exception env w1 ?rid vo e = (res, w2)"
      "res = [(''success'', JBool False), (''error'', JStr (str_exn e)), (''trace'', JStr (format_exc env e))]"
      "events w2 = events w1 @
          (case vo of None \<Rightarrow> []
           | Some v \<Rightarrow> if v \<noteq> 0 then [UpdateVideo v [Set_status ''failed'', Set_error (str_exn e)]] else [])
          @ [CompleteWorkflowRun ?rid ''failed'']"
      "idea_bank w2 = idea_bank w1" "current_idea_index w2 = current_idea_index w1"
      using on_exception_shape[of env w1 ?rid vo e] by blast
    let ?new = "n1 @ (case vo of None \<Rightarrow> []
           | Some v \<Rightarrow> if v \<noteq> 0 then [UpdateVideo v [Set_status ''failed'', Set_error (str_exn e)]] else [])
          @ [CompleteWorkflowRun ?rid ''failed'']"
    have run: "run_workflow env w = Some (res, w2)"
      using ar s(1) Inl h(1) by (simp add: run_workflow_def)
    have life: "lifecycle (status_writes v ?new)" for v
    proof (cases vo)
      case None
      then show ?thesis using vo by (simp add: lifecycle_paths)
    next
      case (Some vid)
      then show ?thesis using vo fresh_id_pos[of "map v_id (videos w0)"]
        by (cases "v = vid") (auto simp: lifecycle_paths)
    qed
    show ?thesis
      apply (rule exI[of _ res], rule exI[of _ w2], rule exI[of _ ?new])
      using run h w0 s life by simp
  next
    case (Inr p)
    then obtain vid where v: "vo = Some vid" using vo by (cases vo) auto
    from vo v Inr obtain title where p: "status_writes vid n1 = [''created'', ''generating'', ''generated'']"
      "p_video_id p = vid" "subscript (p_script p) ''title'' = Inr title"
      "\<forall>v. v \<noteq> vid \<longrightarrow> status_writes v n1 = []" "vid = fresh_id (map v_id (videos w0))"
      by auto
    obtain out6 w2 n2 where s6: "step_6 env w1 ?rid p = (out6, w2)"
      "events w2 = events w1 @ n2" "idea_bank w2 = idea_bank w1"
      "current_idea_index w2 = current_idea_index w1"
      "\<forall>v. v \<noteq> p_video_id p \<longrightarrow> status_writes v n2 = []"
      "case out6 of
          Inl e \<Rightarrow> n2 = [] \<and> w2 = w1
        | Inr res \<Rightarrow> status_writes (p_video_id p) n2 = [''completed'']
                   \<and> map fst res = [''success'', ''video_id'', ''video_url'', ''title'']"
      using step_6_shape[OF p(3), of env w1 ?rid] by blast
    show ?thesis
    proof (cases out6)
      case (Inr res)
      have run: "run_workflow env w = Some (res, w2)"
        using ar s(1) \<open>out = Inr p\<close> s6(1) Inr by (simp add: run_workflow_def)
      have life: "lifecycle (status_writes v (n1 @ n2))" for v
        using p s6(5,6) Inr by (cases "v = vid") (auto simp: lifecycle_paths)
      show ?thesis
        apply (rule exI[of _ res], rule exI[of _ w2], rule exI[of _ "n1 @ n2"])
        using run w0 s s6 life Inr by simp
    next
      case (Inl e)
      obtain res w3 where h: "on_exception env w2 ?rid vo e = (res, w3)"
        "res = [(''success'', JBool False), (''error'', JStr (str_exn e)), (''trace'', JStr (format_exc env e))]"
        "events w3 = events w2 @
          (case vo of None \<Rightarrow> []
           | Some v \<Rightarrow> if v \<noteq> 0 then [UpdateVideo v [Set_status ''failed'', Set_error (str_exn e)]] else [])
          @ [CompleteWorkflowRun ?rid ''failed'']"
        "idea_bank w3 = idea_bank w2" "current_idea_index w3 = current_idea_index w2"
        using on_exception_shape[of env w2 ?rid vo e] by blast
      let ?new = "n1 @ [UpdateVideo vid [Set_status ''failed'', Set_error (str_exn e)],
                         CompleteWorkflowRun ?rid ''failed'']"
      have run: "run_workflow env w = Some (res, w3)"
        using ar s(1) \<open>out = Inr p\<close> s6(1) Inl h(1) by (simp add: run_workflow_def)
      have n2: "n2 = []" "w2 = w1" using s6(6) Inl by auto
      have pos: "vid \<noteq> 0" using p(5) by (simp add: fresh_id_pos)
      have life: "lifecycle (status_writes v ?new)" for v
        using p by (cases "v = vid") (auto simp: lifecycle_paths)
      show ?thesis
        apply (rule exI[of _ res], rule exI[of _ w3], rule exI[of _ ?new])
        using run w0 s h n2 v pos life by simp
    qed
  qed
qed

section \<open>Claims about the engine\<close>


lemma new_events_append: "events w' = events w @ new \<Longrightarrow> new_events w w' = new"
  by (simp add: new_events_def)


text \<open>
  Claim C6. For a non-empty idea bank, every call of \<open>run_workflow\<close> returns and leaves
  \<open>current_idea_index\<close> one position further, modulo the size of the bank, whatever
  the collaborators answer in the steps that follow.
\<close>

theorem rotation_index_advances_once:
  assumes "idea_bank w \<noteq> []"
  shows "\<exists>res w'. run_workflow env w = Some (res, w')
      \<and> current_idea_index w' = (current_idea_index w + 1) mod int (length (idea_bank w))"
  using run_workflow_shape[of env w] assms by blast

theorem rotation_index_advances_once_witness:
  "(\<exists>res w'. run_workflow sample_env (sample_world\<lparr>idea_bank := IDEAS\<rparr>) = Some (res, w')
      \<and> current_idea_index w' = 1)
 \<and> (\<exists>res w'. run_workflow (sample_env\<lparr>generate_script := Inl (Raise HTTPError ''401 Unauthorized'')\<rparr>)
                 (sample_world\<lparr>idea_bank := IDEAS, current_idea_index := 9\<rparr>) = Some (res, w')
      \<and> current_idea_index w' = 0)"
proof -
  have len: "length IDEAS = 10" using IDEAS_slugs_distinct by simp
  have a: "idea_bank (sample_world\<lparr>idea_bank := IDEAS\<rparr>) \<noteq> []"
    and b: "idea_bank (sample_world\<lparr>idea_bank := IDEAS, current_idea_index := 9\<rparr>) \<noteq> []"
    using IDEAS_nonempty by simp_all
  show ?thesis
    using rotation_index_advances_once[OF a, of sample_env]
      rotation_index_advances_once[OF b, of "sample_env\<lparr>generate_script := Inl (Raise HTTPError ''401 Unauthorized'')\<rparr>"]
    by (simp add: len sample_world_def)
qed

lemma run_workflow_first_poll_failed:
  assumes "snd (get_task_status env 0) = Inr r" "status_of r = Inr (JStr ''FAILED'')"
  shows "\<exists>res w'. run_workflow env w = Some (res, w')
      \<and> events w' = events w @ new_events w w'
      \<and> \<not> list_ex is_upload_or_post (new_events w w')"
proof -
  let ?rid = "fresh_id (map r_id (workflow_runs w))"
  obtain w0 where ar: "add_workflow_run w = (?rid, w0)"
    and w0: "events w0 = events w @ [AddWorkflowRun ?rid ''started'']"
    by (simp add: add_workflow_run_def Let_def)
  obtain e vo w1 n1 where s: "steps_1_to_5 env w0 = Some (Inl e, vo, w1)"
    "events w1 = events w0 @ n1" "\<not> list_ex is_upload_or_post n1"
    using steps_1_to_5_first_poll_failed[OF assms, of w0] by blast
  obtain res w2 where h: "on_exception env w1 ?rid vo e = (res, w2)"
      "events w2 = events w1 @
          (case vo of None \<Rightarrow> []
           | Some v \<Rightarrow> if v \<noteq> 0 then [UpdateVideo v [Set_status ''failed'', Set_error (str_exn e)]] else [])
          @ [CompleteWorkflowRun ?rid ''failed'']"
    using on_exception_shape[of env w1 ?rid vo e] by blast
  let ?new = "AddWorkflowRun ?rid ''started'' # n1 @
          (case vo of None \<Rightarrow> []
           | Some v \<Rightarrow> if v \<noteq> 0 then [UpdateVideo v [Set_status ''failed'', Set_error (str_exn e)]] else [])
          @ [CompleteWorkflowRun ?rid ''failed'']"
  have run: "run_workflow env w = Some (res, w2)"
    using ar s(1) h(1) by (simp add: run_workflow_def)
  have ev: "events w2 = events w @ ?new" using w0 s(2) h(2) by simp
  have ne: "new_events w w2 = ?new" using ev by (rule new_events_append)
  have "\<not> list_ex is_upload_or_post ?new"
    using s(3) by (auto split: option.splits)
  then show ?thesis using run ev ne by auto
qed

text \<open>
  Claim C9, amended. Every call of \<open>run_workflow\<close> returns; its first event opens a
  workflow run with status \<open>started\<close>; the returned dictionary has the keys
  \<open>success\<close>, \<open>video_id\<close>, \<open>video_url\<close>, \<open>title\<close> on success and \<open>success\<close>,
  \<open>error\<close>, \<open>trace\<close> on failure. The id of the workflow run is not among them.
\<close>

theorem run_opens_started_run_and_returns_no_run_id:
  "\<exists>res w'. run_workflow env w = Some (res, w')
      \<and> take (Suc (length (events w))) (events w') =
          events w @ [AddWorkflowRun (fresh_id (map r_id (workflow_runs w))) ''started'']
      \<and> (map fst res = [''success'', ''video_id'', ''video_url'', ''title'']
          \<or> map fst res = [''success'', ''error'', ''trace''])"
proof -
  from run_workflow_shape[of env w] obtain res w' new where r: "run_workflow env w = Some (res, w')"
    and e: "events w' = events w @ AddWorkflowRun (fresh_id (map r_id (workflow_runs w))) ''started'' # new"
    and k: "map fst res = [''success'', ''video_id'', ''video_url'', ''title'']
          \<or> map fst res = [''success'', ''error'', ''trace'']"
    by (elim exE conjE) (rule that)
  have "take (Suc (length (events w))) (events w') =
          events w @ [AddWorkflowRun (fresh_id (map r_id (workflow_runs w))) ''started'']"
    using e by simp
  then show ?thesis using r k by (intro exI conjI)
qed


section \<open>The success path and the executor\<close>











text \<open>
  Claim C10. When the workflow is not found or its status is not \<open>active\<close>,
  \<open>execute_workflow\<close> returns a failure dictionary and leaves the world as it was: no
  request to a collaborator, no row in \<open>workflow_executions\<close>, no change of the
  workflow's counters.
\<close>

theorem inactive_workflow_is_refused:
  assumes "get_workflow w workflow_id = None
         \<or> (\<exists>flow. get_workflow w workflow_id = Some flow \<and> wf_status flow \<noteq> ''active'')"
  shows "\<exists>res w'. execute_workflow env w workflow_id = Some (res, w')
      \<and> map_of res ''success'' = Some (JBool False)
      \<and> new_events w w' = []
      \<and> workflow_executions w' = workflow_executions w
      \<and> workflows w' = workflows w"
  using assms by (auto simp: execute_workflow_def new_events_def)

section \<open>Runs of the sample environment\<close>









text \<open>
  The claim C9 as the specification states it fails: the returned dictionaries of a
  failing run (workflow run 1) and of a successful run (workflow run 3) do not hold
  the id of the run.
\<close>

theorem returned_value_has_no_run_id_counterexample:
  "map_option (\<lambda>(res, w'). (res, map r_id (workflow_runs w'), result_has_id res 1))
     (run_workflow (sample_env\<lparr>generate_script := Inl (Raise HTTPError ''401 Unauthorized'')\<rparr>) sample_world) =
   Some ([(''success'', JBool False), (''error'', JStr ''401 Unauthorized''),
          (''trace'', JStr ''Traceback (most recent call last)'')], [1], False)
 \<and> map_option (\<lambda>(res, w'). (res, map r_id (workflow_runs w'), result_has_id res 3))
     (run_workflow sample_env
        (sample_world\<lparr>workflow_runs :=
           [\<lparr>r_id = 1, r_completed = True, r_status = ''failed'', r_video_id = None, r_error = Some ''x''\<rparr>,
            \<lparr>r_id = 2, r_completed = True, r_status = ''failed'', r_video_id = None, r_error = Some ''x''\<rparr>]\<rparr>)) =
   Some ([(''success'', JBool True), (''video_id'', JNum 1),
          (''video_url'', JStr ''http://x/video.mp4''), (''title'', JStr ''T'')], [1, 2, 3], False)"
  by code_simp

theorem inactive_workflow_is_refused_witness:
  "(\<exists>res w'. execute_workflow sample_env sample_world 2 = Some (res, w')
      \<and> map_of res ''success'' = Some (JBool False)
      \<and> new_events sample_world w' = []
      \<and> workflow_executions w' = workflow_executions sample_world)
 \<and> (\<exists>res w'. execute_workflow sample_env
                 (sample_world\<lparr>workflows := [sample_workflow\<lparr>wf_status := ''paused''\<rparr>]\<rparr>) 1 = Some (res, w')
      \<and> map_of res ''success'' = Some (JBool False)
      \<and> new_events (sample_world\<lparr>workflows := [sample_workflow\<lparr>wf_status := ''paused''\<rparr>]\<rparr>) w' = []
      \<and> workflow_executions w' = [])"
proof -
  let ?paused = "sample_world\<lparr>workflows := [sample_workflow\<lparr>wf_status := ''paused''\<rparr>]\<rparr>"
  have a: "get_workflow sample_world 2 = None
         \<or> (\<exists>flow. get_workflow sample_world 2 = Some flow \<and> wf_status flow \<noteq> ''active'')"
    by (simp add: get_workflow_def sample_world_def sample_workflow_def)
  have b: "get_workflow ?paused 1 = None
         \<or> (\<exists>flow. get_workflow ?paused 1 = Some flow \<and> wf_status flow \<noteq> ''active'')"
    by (simp add: get_workflow_def sample_world_def sample_workflow_def)
  have e: "workflow_executions ?paused = []" by (simp add: sample_world_def)
  show ?thesis
    using inactive_workflow_is_refused[OF a, of sample_env]
          inactive_workflow_is_refused[OF b, of sample_env] e
    by auto
qed

section \<open>The executor up to the upload\<close>

lemma list_ex_polls [simp]: "list_all is_poll_event polls \<Longrightarrow> list_ex is_upload_or_post polls = False"
  using polls_no_upload_or_post by simp

lemma wait_and_upload_not_None [simp]: "wait_and_upload env w idea script t \<noteq> None"
  unfolding wait_and_upload_def
  by (auto simp: Let_def split: sum.splits option.splits)

lemma wait_and_upload_eventsD:
  "wait_and_upload env w idea script t = Some (out, w') \<Longrightarrow> \<exists>new. events w' = events w @ new"
  unfolding wait_and_upload_def
  by (auto simp: Let_def split: sum.splits option.splits dest!: wait_eventsD)

lemma wait_and_upload_Some [simp]:
  "\<exists>out w'. wait_and_upload env w idea script t = Some (out, w')"
  using wait_and_upload_not_None[of env w idea script t]
  by (cases "wait_and_upload env w idea script t") auto


lemma create_and_upload_eventsD:
  "create_and_upload env w config = Some (out, w') \<Longrightarrow> \<exists>new. events w' = events w @ new"
  unfolding create_and_upload_def
  by (auto simp: Let_def split: sum.splits dest!: wait_and_upload_eventsD)

lemma wait_and_upload_first_poll_failed:
  assumes "snd (get_task_status env 0) = Inr r" "status_of r = Inr (JStr ''FAILED'')"
  shows "\<exists>e. wait_and_upload env w idea script t = Some (Inl e, emit w (GetTaskStatus t))"
  by (simp add: wait_and_upload_def wait_first_failed[OF assms] emit_def)

lemma create_and_upload_first_poll_failed:
  assumes "snd (get_task_status env 0) = Inr r" "status_of r = Inr (JStr ''FAILED'')"
  shows "\<exists>e w' new. create_and_upload env w config = Some (Inl e, w')
     \<and> events w' = events w @ new \<and> \<not> list_ex is_upload_or_post new"
  unfolding create_and_upload_def
  using wait_and_upload_first_poll_failed[OF assms]
  by (auto simp: Let_def wait_and_upload_def wait_first_failed[OF assms] split: sum.splits)

lemma log_execution_events [simp]:
  "events (log_execution w i s r e) = events w @ [LogExecution i s]"
  by (simp add: log_execution_def Let_def)

lemma execute_workflow_first_poll_failed:
  assumes "snd (get_task_status env 0) = Inr r" "status_of r = Inr (JStr ''FAILED'')"
  shows "\<exists>res w'. execute_workflow env w workflow_id = Some (res, w')
      \<and> events w' = events w @ new_events w w'
      \<and> \<not> list_ex is_upload_or_post (new_events w w')"
proof (cases "get_workflow w workflow_id")
  case None
  then show ?thesis by (simp add: execute_workflow_def new_events_def)
next
  case (Some flow)
  show ?thesis
  proof (cases "wf_status flow = ''active'' \<and> wf_type flow = ''video_creation''")
    case False
    then show ?thesis using Some
      by (auto simp: execute_workflow_def route_def new_events_def truthy_def
            execute_engagement_def execute_analytics_def execute_custom_def)
  next
    case True
    obtain e w1 new where c: "create_and_upload env w (wf_config flow) = Some (Inl e, w1)"
      "events w1 = events w @ new" "\<not> list_ex is_upload_or_post new"
      using create_and_upload_first_poll_failed[OF assms, of w "wf_config flow"] by blast
    let ?w2 = "log_execution w1 workflow_id ''failed'' None (Some (JStr (str_exn e)))"
    have ex: "execute_workflow env w workflow_id =
        Some ([(''success'', JBool False), (''error'', JStr (str_exn e)),
               (''trace'', JStr (format_exc env e))], ?w2)"
      using Some True c(1) by (simp add: execute_workflow_def route_def execute_video_creation_def)
    have ev: "events ?w2 = events w @ (new @ [LogExecution workflow_id ''failed''])"
      using c(2) by simp
    have ne: "new_events w ?w2 = new @ [LogExecution workflow_id ''failed'']"
      using ev by (rule new_events_append)
    show ?thesis using ex ev ne c(3) by simp
  qed
qed


section \<open>Claims about both paths\<close>

text \<open>
  Claim C8. When the first status request answers FAILED, the engine's run and the
  executor's run both return, and none of the events of either is an upload or a post.
\<close>

theorem failed_first_poll_no_upload_no_post:
  assumes "snd (get_task_status env 0) = Inr r" "status_of r = Inr (JStr ''FAILED'')"
  shows "(\<exists>res w'. run_workflow env w = Some (res, w')
            \<and> events w' = events w @ new_events w w'
            \<and> \<not> list_ex is_upload_or_post (new_events w w'))
       \<and> (\<exists>res w'. execute_workflow env w workflow_id = Some (res, w')
            \<and> events w' = events w @ new_events w w'
            \<and> \<not> list_ex is_upload_or_post (new_events w w'))"
  using run_workflow_first_poll_failed[OF assms, of w]
        execute_workflow_first_poll_failed[OF assms, of w workflow_id]
  by (rule conjI)

theorem failed_first_poll_no_upload_no_post_witness:
  "(\<exists>res w'. run_workflow (sample_env\<lparr>get_task_status := \<lambda>k. (1, Inr (sample_status ''FAILED''))\<rparr>)
                sample_world = Some (res, w')
      \<and> \<not> list_ex is_upload_or_post (new_events sample_world w'))
 \<and> (\<exists>res w'. execute_workflow (sample_env\<lparr>get_task_status := \<lambda>k. (1, Inr (sample_status ''FAILED''))\<rparr>)
                sample_world 1 = Some (res, w')
      \<and> \<not> list_ex is_upload_or_post (new_events sample_world w'))"
proof -
  let ?env = "sample_env\<lparr>get_task_status := \<lambda>k. (1, Inr (sample_status ''FAILED''))\<rparr>"
  have a: "snd (get_task_status ?env 0) = Inr (sample_status ''FAILED'')" by simp
  have b: "status_of (sample_status ''FAILED'') = Inr (JStr ''FAILED'')"
    by (simp add: status_of_def sample_status_def)
  show ?thesis
    using failed_first_poll_no_upload_no_post[OF a b, of sample_world 1] by blast
qed




end
